theory Spec2Isabelle
  imports Complex_Main "HOL-Library.AList"
begin

section \<open>Python values, dictionaries and exceptions\<close>

text \<open>
  The vector stores pass around untyped Python data: backend rows, query pipelines and
  metadata are dictionaries whose values are strings, numbers, lists and further
  dictionaries. A dictionary keeps its keys in insertion order, so it is an association
  list with distinct keys. A float is modelled by the real number it denotes (the code
  under study only compares floats and passes them on; NaN is outside the model).
  \<open>PObj c attrs\<close> is an instance of class \<open>c\<close> with the given attributes, as the
  structured codec revives it (a \<open>Generation\<close>) or the search client returns it (a
  caption).

  A private function of the source, such as \<open>_get_llm_cache\<close>, appears under its
  name without the leading underscore. Where that name is taken, another is used and
  the text before the definition says which function it is.
\<close>

datatype pyval =
    PNone
  | PBool bool
  | PInt int
  | PFloat real
  | PStr string
  | PList "pyval list"
  | PDict "(string \<times> pyval) list"
  | PObj string "(string \<times> pyval) list"

type_synonym pydict = "(string \<times> pyval) list"

text \<open>
  The per-document report of an upload (\<open>IndexingResult\<close>): the document key and
  whether the backend stored it.
\<close>

record indexing_result =
  ir_key :: string
  succeeded :: bool

text \<open>The exceptions that the modelled code can raise or let through.\<close>

datatype py_error =
    KeyError string
  | IndexError
  | TypeError
  | ValueError
  | AttributeError
  | JSONDecodeError
  | ValidationError
  | NotImplementedError
  | ZeroDivisionError
  | CosmosResourceNotFoundError
  | LangChainException "indexing_result list"

text \<open>\<open>d[k] = v\<close>: an existing key keeps its position, a new key goes last.\<close>

definition dict_set :: "pydict \<Rightarrow> string \<Rightarrow> pyval \<Rightarrow> pydict" where
  "dict_set d k v = AList.update k v d"

text \<open>\<open>d[k]\<close>, raising \<open>KeyError\<close> on a missing key.\<close>

definition dict_item :: "pydict \<Rightarrow> string \<Rightarrow> py_error + pyval" where
  "dict_item d k = (case map_of d k of None \<Rightarrow> Inl (KeyError k) | Some v \<Rightarrow> Inr v)"

text \<open>\<open>d.get(k, default)\<close>.\<close>

definition dict_get :: "pydict \<Rightarrow> string \<Rightarrow> pyval \<Rightarrow> pyval" where
  "dict_get d k dflt = (case map_of d k of None \<Rightarrow> dflt | Some v \<Rightarrow> v)"

text \<open>\<open>d.pop(k)\<close>: the value and the dictionary without the key, or \<open>KeyError\<close>.\<close>

definition dict_pop :: "pydict \<Rightarrow> string \<Rightarrow> py_error + (pyval \<times> pydict)" where
  "dict_pop d k =
     (case map_of d k of
        None \<Rightarrow> Inl (KeyError k)
      | Some v \<Rightarrow> Inr (v, AList.delete k d))"

text \<open>\<open>d.pop(k, default)\<close>.\<close>

definition dict_pop_default :: "pydict \<Rightarrow> string \<Rightarrow> pyval \<Rightarrow> pyval \<times> pydict" where
  "dict_pop_default d k dflt =
     (case map_of d k of
        None \<Rightarrow> (dflt, d)
      | Some v \<Rightarrow> (v, AList.delete k d))"

text \<open>\<open>d.update(e)\<close>, which is also \<open>{**d, **e}\<close>.\<close>

definition dict_update :: "pydict \<Rightarrow> pydict \<Rightarrow> pydict" where
  "dict_update d e = fold (\<lambda>(k, v) acc. AList.update k v acc) e d"

text \<open>Truth value of an object in a condition (\<open>if x:\<close>, \<open>x or y\<close>).\<close>

fun truthy :: "pyval \<Rightarrow> bool" where
  "truthy PNone = False"
| "truthy (PBool b) = b"
| "truthy (PInt i) = (i \<noteq> 0)"
| "truthy (PFloat x) = (x \<noteq> 0)"
| "truthy (PStr s) = (s \<noteq> [])"
| "truthy (PList xs) = (xs \<noteq> [])"
| "truthy (PDict d) = (d \<noteq> [])"
| "truthy (PObj c attrs) = True"

text \<open>Sequencing of steps that may raise: the first exception ends the computation.\<close>

fun and_then :: "'e + 'a \<Rightarrow> ('a \<Rightarrow> 'e + 'b) \<Rightarrow> 'e + 'b" where
  "and_then (Inl e) f = Inl e"
| "and_then (Inr x) f = f x"

text \<open>
  \<open>score < threshold\<close> for a float threshold. Numbers (and booleans, which are
  integers) compare by value; every other operand raises \<open>TypeError\<close>.
\<close>

fun py_lt :: "pyval \<Rightarrow> real \<Rightarrow> py_error + bool" where
  "py_lt (PFloat x) t = Inr (x < t)"
| "py_lt (PInt i) t = Inr (real_of_int i < t)"
| "py_lt (PBool b) t = Inr ((if b then 1 else 0) < t)"
| "py_lt PNone t = Inl TypeError"
| "py_lt (PStr s) t = Inl TypeError"
| "py_lt (PList xs) t = Inl TypeError"
| "py_lt (PDict d) t = Inl TypeError"
| "py_lt (PObj c attrs) t = Inl TypeError"

text \<open>
  A \<open>Document\<close>: its constructor validates that the content is a string and the
  metadata a dictionary.
\<close>

record Document =
  page_content :: string
  metadata :: pydict

definition new_Document :: "pyval \<Rightarrow> pyval \<Rightarrow> py_error + Document" where
  "new_Document content meta =
     (case content of
        PStr text \<Rightarrow>
          (case meta of
             PDict m \<Rightarrow> Inr \<lparr>page_content = text, metadata = m\<rparr>
           | _ \<Rightarrow> Inl ValidationError)
      | _ \<Rightarrow> Inl ValidationError)"

text \<open>
  A keyword parameter with a default value: \<open>None\<close> stands for an argument the caller
  left out, \<open>Some v\<close> for one that was passed.
\<close>

definition arg_or :: "'a \<Rightarrow> 'a option \<Rightarrow> 'a" where
  "arg_or dflt a = (case a of None \<Rightarrow> dflt | Some v \<Rightarrow> v)"

section \<open>Cosmos DB Mongo vCore: query pipelines\<close>

text \<open>The string values of the enumeration \<open>CosmosDBVectorSearchType\<close>.\<close>

definition VECTOR_IVF :: string where
  "VECTOR_IVF = ''vector-ivf''"

definition VECTOR_HNSW :: string where
  "VECTOR_HNSW = ''vector-hnsw''"

definition VECTOR_DISKANN :: string where
  "VECTOR_DISKANN = ''vector-diskann''"

text \<open>
  The fields of an \<open>AzureCosmosDBMongoVCoreVectorSearch\<close> object that the query code
  reads. The collection itself lives in the backend.
\<close>

record vcore_store =
  index_name :: string
  text_key :: string
  embedding_key :: string

text \<open>
  \<open>pre_filter: Optional[Dict] = None\<close> is tested with \<open>if pre_filter:\<close>, which holds for
  a dictionary with at least one entry.
\<close>

definition filter_given :: "pydict option \<Rightarrow> bool" where
  "filter_given pre_filter = (case pre_filter of None \<Rightarrow> False | Some f \<Rightarrow> f \<noteq> [])"

definition with_filter :: "pydict \<Rightarrow> pydict option \<Rightarrow> pydict" where
  "with_filter params pre_filter =
     (case pre_filter of
        None \<Rightarrow> params
      | Some f \<Rightarrow> if f \<noteq> [] then dict_set params ''filter'' (PDict f) else params)"

text \<open>The second stage, the same literal in the three builders.\<close>

definition project_stage :: pyval where
  "project_stage =
     PDict [(''$project'',
       PDict [(''similarityScore'', PDict [(''$meta'', PStr ''searchScore'')]),
              (''document'', PStr ''$$ROOT'')])]"

definition get_pipeline_vector_ivf ::
  "vcore_store \<Rightarrow> real list \<Rightarrow> int option \<Rightarrow> pydict option \<Rightarrow> pyval option \<Rightarrow> pyval list" where
  "get_pipeline_vector_ivf self embeddings k pre_filter oversampling =
     (let params = [(''vector'', PList (map PFloat embeddings)),
                    (''path'', PStr (embedding_key self)),
                    (''k'', PInt (arg_or 4 k)),
                    (''oversampling'', arg_or (PFloat 1) oversampling)];
          params = with_filter params pre_filter
      in [PDict [(''$search'',
            PDict [(''cosmosSearch'', PDict params), (''returnStoredSource'', PBool True)])],
          project_stage])"

definition get_pipeline_vector_hnsw ::
  "vcore_store \<Rightarrow> real list \<Rightarrow> int option \<Rightarrow> int option \<Rightarrow> pydict option \<Rightarrow> pyval option
     \<Rightarrow> pyval list" where
  "get_pipeline_vector_hnsw self embeddings k ef_search pre_filter oversampling =
     (let params = [(''vector'', PList (map PFloat embeddings)),
                    (''path'', PStr (embedding_key self)),
                    (''k'', PInt (arg_or 4 k)),
                    (''efSearch'', PInt (arg_or 40 ef_search)),
                    (''oversampling'', arg_or (PFloat 1) oversampling)];
          params = with_filter params pre_filter
      in [PDict [(''$search'', PDict [(''cosmosSearch'', PDict params)])],
          project_stage])"

definition get_pipeline_vector_diskann ::
  "vcore_store \<Rightarrow> real list \<Rightarrow> int option \<Rightarrow> int option \<Rightarrow> pydict option \<Rightarrow> pyval option
     \<Rightarrow> pyval list" where
  "get_pipeline_vector_diskann self embeddings k l_search pre_filter oversampling =
     (let params = [(''vector'', PList (map PFloat embeddings)),
                    (''path'', PStr (embedding_key self)),
                    (''k'', PInt (arg_or 4 k)),
                    (''lSearch'', PInt (arg_or 40 l_search)),
                    (''oversampling'', arg_or (PFloat 1) oversampling)];
          params = with_filter params pre_filter
      in [PDict [(''$search'', PDict [(''cosmosSearch'', PDict params)])],
          project_stage])"

text \<open>
  The dispatch at the head of \<open>_similarity_search_with_score\<close>: the pipeline starts as
  the empty list and one of three builders replaces it when \<open>kind\<close> equals the value of
  an enumeration member. The builders are called with positional arguments only, so
  their \<open>oversampling\<close> parameter always takes its default.
\<close>

definition search_pipeline ::
  "vcore_store \<Rightarrow> real list \<Rightarrow> int option \<Rightarrow> string option \<Rightarrow> pydict option \<Rightarrow> int option
     \<Rightarrow> int option \<Rightarrow> pyval list" where
  "search_pipeline self embeddings k kind pre_filter ef_search l_search =
     (let kind = arg_or VECTOR_IVF kind;
          k = arg_or 4 k;
          ef_search = arg_or 40 ef_search;
          l_search = arg_or 40 l_search
      in if kind = VECTOR_IVF then
           get_pipeline_vector_ivf self embeddings (Some k) pre_filter None
         else if kind = VECTOR_HNSW then
           get_pipeline_vector_hnsw self embeddings (Some k) (Some ef_search) pre_filter None
         else if kind = VECTOR_DISKANN then
           get_pipeline_vector_diskann self embeddings (Some k) (Some l_search) pre_filter None
         else [])"

text \<open>
  Reading a pipeline back: the parameters of the \<open>cosmosSearch\<close> entry of the
  \<open>$search\<close> stage at the head of the pipeline, when the pipeline has that shape.
\<close>

definition cosmos_search_params :: "pyval list \<Rightarrow> pydict option" where
  "cosmos_search_params pipeline =
     (case pipeline of
        PDict stage # _ \<Rightarrow>
          (case map_of stage ''$search'' of
             Some (PDict search) \<Rightarrow>
               (case map_of search ''cosmosSearch'' of
                  Some (PDict params) \<Rightarrow> Some params
                | _ \<Rightarrow> None)
           | _ \<Rightarrow> None)
      | _ \<Rightarrow> None)"

definition search_param :: "pyval list \<Rightarrow> string \<Rightarrow> pyval option" where
  "search_param pipeline name =
     (case cosmos_search_params pipeline of
        None \<Rightarrow> None
      | Some params \<Rightarrow> map_of params name)"

section \<open>Cosmos DB Mongo vCore: similarity search\<close>

text \<open>
  One pass of the loop over the cursor in \<open>_similarity_search_with_score\<close>. The row's
  score is popped and compared first; a row below the threshold is skipped
  (\<open>continue\<close>, here \<open>None\<close>) before anything else of it is read. Otherwise the
  document is taken apart (\<open>document_of_row\<close>, the rest of the loop body), each
  \<open>pop\<close> raising \<open>KeyError\<close> on a missing field.
\<close>

definition pop_field :: "pyval \<Rightarrow> string \<Rightarrow> py_error + (pyval \<times> pydict)" where
  "pop_field obj k =
     (case obj of
        PDict d \<Rightarrow> dict_pop d k
      | PList xs \<Rightarrow> Inl TypeError
      | _ \<Rightarrow> Inl AttributeError)"

definition set_item :: "pyval \<Rightarrow> string \<Rightarrow> pyval \<Rightarrow> py_error + pyval" where
  "set_item obj k v =
     (case obj of
        PDict d \<Rightarrow> Inr (PDict (dict_set d k v))
      | _ \<Rightarrow> Inl TypeError)"

definition document_of_row :: "vcore_store \<Rightarrow> bool \<Rightarrow> pydict \<Rightarrow> py_error + Document" where
  "document_of_row self with_embedding res =
     and_then (dict_pop res ''document'') (\<lambda>(document_object_field, res).
     and_then (pop_field document_object_field (text_key self)) (\<lambda>(text, rest).
     case dict_pop_default rest ''metadata'' (PDict []) of (meta, rest) \<Rightarrow>
     and_then (dict_pop rest ''_id'') (\<lambda>(oid, rest).
     and_then (set_item meta ''_id'' oid) (\<lambda>meta.
     and_then
       (if with_embedding then
          and_then (dict_pop rest (embedding_key self)) (\<lambda>(emb, rest).
            set_item meta (embedding_key self) emb)
        else Inr meta) (\<lambda>meta.
     new_Document text meta)))))"

definition row_to_doc ::
  "vcore_store \<Rightarrow> real \<Rightarrow> bool \<Rightarrow> pydict \<Rightarrow> py_error + (Document \<times> pyval) option" where
  "row_to_doc self score_threshold with_embedding res =
     and_then (dict_pop res ''similarityScore'') (\<lambda>(score, res).
     and_then (py_lt score score_threshold) (\<lambda>below.
       if below then Inr None
       else and_then (document_of_row self with_embedding res) (\<lambda>doc.
              Inr (Some (doc, score)))))"

fun collect_docs ::
  "vcore_store \<Rightarrow> real \<Rightarrow> bool \<Rightarrow> pydict list \<Rightarrow> (Document \<times> pyval) list
     \<Rightarrow> py_error + (Document \<times> pyval) list" where
  "collect_docs self score_threshold with_embedding [] docs = Inr docs"
| "collect_docs self score_threshold with_embedding (res # cursor) docs =
     and_then (row_to_doc self score_threshold with_embedding res) (\<lambda>r.
       case r of
         None \<Rightarrow> collect_docs self score_threshold with_embedding cursor docs
       | Some d \<Rightarrow> collect_docs self score_threshold with_embedding cursor (docs @ [d]))"

text \<open>
  The services outside the repository that the Mongo vCore store and the semantic cache
  call: the hash function, the embedding model, the backend's \<open>aggregate\<close> (the rows
  it returns for a pipeline, given the documents of the collection), the structured
  codec (\<open>loads\<close> and \<open>dumps\<close> of \<open>langchain_core.load\<close>), the JSON decoder and
  the validating constructor of \<open>Generation\<close>.
\<close>

record mongo_env =
  sha256_hexdigest :: "string \<Rightarrow> string"
  embed_query :: "string \<Rightarrow> real list"
  embed_documents :: "string list \<Rightarrow> real list list"
  aggregate :: "pydict list \<Rightarrow> pyval list \<Rightarrow> pydict list"
  loads :: "string \<Rightarrow> py_error + pyval"
  dumps :: "pyval list \<Rightarrow> string"
  json_loads :: "string \<Rightarrow> py_error + pyval"
  new_Generation :: "pydict \<Rightarrow> py_error + pyval"

text \<open>
  \<open>_similarity_search_with_score\<close>, here \<open>similarity_search_with_score_by_vector\<close>
  next to the public \<open>similarity_search_with_score\<close>: build the pipeline for the
  kind, run it on the collection and normalise the rows. \<open>score_threshold\<close> defaults to \<open>0.0\<close> and
  \<open>with_embedding\<close> to \<open>False\<close>; the \<open>oversampling\<close> argument is accepted and not
  used.
\<close>

definition similarity_search_with_score_by_vector ::
  "mongo_env \<Rightarrow> vcore_store \<Rightarrow> pydict list \<Rightarrow> real list \<Rightarrow> int option \<Rightarrow> string option
     \<Rightarrow> pydict option \<Rightarrow> int option \<Rightarrow> real option \<Rightarrow> int option \<Rightarrow> bool option
     \<Rightarrow> pyval option \<Rightarrow> py_error + (Document \<times> pyval) list" where
  "similarity_search_with_score_by_vector env self coll embeddings k kind pre_filter ef_search
       score_threshold l_search with_embedding oversampling =
     (let pipeline = search_pipeline self embeddings k kind pre_filter ef_search l_search;
          cursor = aggregate env coll pipeline
      in collect_docs self (arg_or 0 score_threshold) (arg_or False with_embedding) cursor [])"

definition similarity_search_with_score ::
  "mongo_env \<Rightarrow> vcore_store \<Rightarrow> pydict list \<Rightarrow> string \<Rightarrow> int option \<Rightarrow> string option
     \<Rightarrow> pydict option \<Rightarrow> int option \<Rightarrow> real option \<Rightarrow> int option \<Rightarrow> bool option
     \<Rightarrow> pyval option \<Rightarrow> py_error + (Document \<times> pyval) list" where
  "similarity_search_with_score env self coll query k kind pre_filter ef_search
       score_threshold l_search with_embedding oversampling =
     (let embeddings = embed_query env query
      in similarity_search_with_score_by_vector env self coll embeddings
           (Some (arg_or 4 k)) (Some (arg_or VECTOR_IVF kind)) pre_filter
           (Some (arg_or 40 ef_search)) (Some (arg_or 0 score_threshold))
           (Some (arg_or 40 l_search)) (Some (arg_or False with_embedding))
           (Some (arg_or (PFloat 1) oversampling)))"

definition similarity_search ::
  "mongo_env \<Rightarrow> vcore_store \<Rightarrow> pydict list \<Rightarrow> string \<Rightarrow> int option \<Rightarrow> string option
     \<Rightarrow> pydict option \<Rightarrow> int option \<Rightarrow> real option \<Rightarrow> int option \<Rightarrow> bool option
     \<Rightarrow> pyval option \<Rightarrow> py_error + Document list" where
  "similarity_search env self coll query k kind pre_filter ef_search
       score_threshold l_search with_embedding oversampling =
     and_then
       (similarity_search_with_score env self coll query
          (Some (arg_or 4 k)) (Some (arg_or VECTOR_IVF kind)) pre_filter
          (Some (arg_or 40 ef_search)) (Some (arg_or 0 score_threshold))
          (Some (arg_or 40 l_search)) (Some (arg_or False with_embedding))
          (Some (arg_or (PFloat 1) oversampling)))
       (\<lambda>docs_and_scores. Inr (map fst docs_and_scores))"

section \<open>Cosmos DB Mongo vCore: inserting texts\<close>

text \<open>
  The backend collection that every store of one cache shares: its documents, the names
  of its indexes and the number of documents inserted so far, from which the backend
  draws the \<open>_id\<close> of a new document.
\<close>

record mongo_collection =
  documents :: "pydict list"
  indexes :: "string list"
  inserted :: nat

text \<open>
  \<open>insert_many\<close> rejects an empty list; otherwise it gives each document that has
  no \<open>_id\<close> a new one, stores the documents in order and reports their ids.
\<close>

definition insert_many ::
  "mongo_collection \<Rightarrow> pydict list \<Rightarrow> (py_error + pyval list) \<times> mongo_collection" where
  "insert_many coll docs =
     (if docs = [] then (Inl TypeError, coll)
      else
        let n = inserted coll;
            fresh = map (\<lambda>i. PInt (int i)) [n ..< n + length docs];
            stored =
              map (\<lambda>(d, oid).
                     case map_of d ''_id'' of
                       None \<Rightarrow> (dict_set d ''_id'' oid, oid)
                     | Some v \<Rightarrow> (d, v))
                  (zip docs fresh)
        in (Inr (map snd stored),
            coll\<lparr>documents := documents coll @ map fst stored,
                 inserted := n + length docs\<rparr>))"

text \<open>\<open>delete_many({})\<close>: the empty filter matches every document.\<close>

definition delete_many_all :: "mongo_collection \<Rightarrow> mongo_collection" where
  "delete_many_all coll = coll\<lparr>documents := []\<rparr>"

definition insert_texts ::
  "mongo_env \<Rightarrow> vcore_store \<Rightarrow> mongo_collection \<Rightarrow> string list \<Rightarrow> pyval list
     \<Rightarrow> (py_error + pyval list) \<times> mongo_collection" where
  "insert_texts env self coll texts metadatas =
     (if texts = [] then (Inr [], coll)
      else
        let embeddings = embed_documents env texts;
            to_insert =
              map (\<lambda>(t, m, embedding).
                     dict_update []
                       [(text_key self, PStr t),
                        (embedding_key self, PList (map PFloat embedding)),
                        (''metadata'', m)])
                  (zip texts (zip metadatas embeddings))
        in insert_many coll to_insert)"

text \<open>
  The loop of \<open>add_texts\<close> over \<open>enumerate(zip(texts, _metadatas))\<close>, from position
  \<open>i\<close> on: a full batch is inserted when \<open>(i + 1) % batch_size == 0\<close>.
\<close>

fun add_texts_loop ::
  "mongo_env \<Rightarrow> vcore_store \<Rightarrow> int \<Rightarrow> int \<Rightarrow> (string \<times> pyval) list
     \<Rightarrow> string list \<Rightarrow> pyval list \<Rightarrow> pyval list \<Rightarrow> mongo_collection
     \<Rightarrow> (py_error + (string list \<times> pyval list \<times> pyval list)) \<times> mongo_collection" where
  "add_texts_loop env self batch_size i [] texts_batch metadatas_batch result_ids coll =
     (Inr (texts_batch, metadatas_batch, result_ids), coll)"
| "add_texts_loop env self batch_size i ((text, meta) # rest) texts_batch metadatas_batch
       result_ids coll =
     (let texts_batch = texts_batch @ [text];
          metadatas_batch = metadatas_batch @ [meta]
      in if batch_size = 0 then (Inl ZeroDivisionError, coll)
         else if (i + 1) mod batch_size = 0 then
           (case insert_texts env self coll texts_batch metadatas_batch of
              (Inl e, coll) \<Rightarrow> (Inl e, coll)
            | (Inr ids, coll) \<Rightarrow>
                add_texts_loop env self batch_size (i + 1) rest [] [] (result_ids @ ids) coll)
         else
           add_texts_loop env self batch_size (i + 1) rest texts_batch metadatas_batch
             result_ids coll)"

definition DEFAULT_INSERT_BATCH_SIZE :: int where
  "DEFAULT_INSERT_BATCH_SIZE = 128"

definition add_texts ::
  "mongo_env \<Rightarrow> vcore_store \<Rightarrow> mongo_collection \<Rightarrow> string list \<Rightarrow> pyval list option
     \<Rightarrow> int option \<Rightarrow> (py_error + pyval list) \<times> mongo_collection" where
  "add_texts env self coll texts metadatas batch_size_kw =
     (let batch_size = arg_or DEFAULT_INSERT_BATCH_SIZE batch_size_kw;
          metadatas' =
            (case metadatas of
               None \<Rightarrow> map (\<lambda>_. PDict []) texts
             | Some ms \<Rightarrow> if ms \<noteq> [] then ms else map (\<lambda>_. PDict []) texts)
      in case add_texts_loop env self batch_size 0 (zip texts metadatas') [] [] [] coll of
           (Inl e, coll) \<Rightarrow> (Inl e, coll)
         | (Inr (texts_batch, metadatas_batch, result_ids), coll) \<Rightarrow>
             if texts_batch \<noteq> [] then
               (case insert_texts env self coll texts_batch metadatas_batch of
                  (Inl e, coll) \<Rightarrow> (Inl e, coll)
                | (Inr ids, coll) \<Rightarrow> (Inr (result_ids @ ids), coll))
             else (Inr result_ids, coll))"

section \<open>Semantic cache on Cosmos DB Mongo vCore\<close>

text \<open>
  The cache object: the search settings it was built with, the registry \<open>_cache_dict\<close>
  from index name to store, and the backend collection named by its database and
  collection name, which every store it creates is bound to.
\<close>

record mongo_cache =
  cache_kind :: string
  cache_ef_search :: int
  cache_l_search :: int
  cache_score_threshold :: "real option"
  cache_oversampling :: pyval
  cache_dict :: "(string \<times> vcore_store) list"
  collection :: mongo_collection

text \<open>
  \<open>_hash\<close> (here \<open>hash_str\<close>), the SHA-256 digest of the text in hexadecimal, and
  \<open>_index_name\<close> (here \<open>cache_index_name\<close>), the name of the index of a model
  signature.
\<close>

definition hash_str :: "mongo_env \<Rightarrow> string \<Rightarrow> string" where
  "hash_str env input = sha256_hexdigest env input"

definition cache_index_name :: "mongo_env \<Rightarrow> string \<Rightarrow> string" where
  "cache_index_name env llm_string = ''cache:'' @ hash_str env llm_string"

definition index_exists :: "vcore_store \<Rightarrow> mongo_collection \<Rightarrow> bool" where
  "index_exists self coll = (index_name self \<in> set (indexes coll))"

text \<open>
  \<open>create_index\<close> sends the backend the command that creates the index named at
  construction; of the collection's state only the index names change.
\<close>

definition create_index :: "vcore_store \<Rightarrow> mongo_collection \<Rightarrow> mongo_collection" where
  "create_index self coll = coll\<lparr>indexes := indexes coll @ [index_name self]\<rparr>"

text \<open>
  \<open>_get_llm_cache\<close>: the store registered under the signature's index name, or a new
  store on the shared collection, registered and given its index if the collection does
  not have it yet.
\<close>

definition get_llm_cache ::
  "mongo_env \<Rightarrow> mongo_cache \<Rightarrow> string \<Rightarrow> vcore_store \<times> mongo_cache" where
  "get_llm_cache env self llm_string =
     (let name = cache_index_name env llm_string
      in case map_of (cache_dict self) name of
           Some vectorstore \<Rightarrow> (vectorstore, self)
         | None \<Rightarrow>
             let vectorstore =
                   \<lparr>index_name = name, text_key = ''textContent'',
                    embedding_key = ''vectorContent''\<rparr>;
                 self = self\<lparr>cache_dict := AList.update name vectorstore (cache_dict self)\<rparr>;
                 self =
                   (if \<not> index_exists vectorstore (collection self) then
                      self\<lparr>collection := create_index vectorstore (collection self)\<rparr>
                    else self)
             in (vectorstore, self))"

text \<open>Iterating over an object, as \<open>list.extend\<close> and a comprehension do.\<close>

fun py_iter :: "pyval \<Rightarrow> py_error + pyval list" where
  "py_iter (PList xs) = Inr xs"
| "py_iter (PStr s) = Inr (map (\<lambda>c. PStr [c]) s)"
| "py_iter (PDict d) = Inr (map (\<lambda>(k, v). PStr k) d)"
| "py_iter (PObj c attrs) = Inr (map (\<lambda>(k, v). PList [PStr k, v]) attrs)"
| "py_iter PNone = Inl TypeError"
| "py_iter (PBool b) = Inl TypeError"
| "py_iter (PInt i) = Inl TypeError"
| "py_iter (PFloat x) = Inl TypeError"

text \<open>A decoder applied to an object: only a string can be decoded.\<close>

definition decode_with :: "(string \<Rightarrow> py_error + pyval) \<Rightarrow> pyval \<Rightarrow> py_error + pyval" where
  "decode_with decoder v = (case v of PStr s \<Rightarrow> decoder s | _ \<Rightarrow> Inl TypeError)"

fun map_raise :: "('a \<Rightarrow> py_error + 'b) \<Rightarrow> 'a list \<Rightarrow> py_error + 'b list" where
  "map_raise f [] = Inr []"
| "map_raise f (x # xs) =
     and_then (f x) (\<lambda>y. and_then (map_raise f xs) (\<lambda>ys. Inr (y # ys)))"

text \<open>\<open>Generation(**generation_dict)\<close>: the argument must be a mapping.\<close>

definition Generation_from :: "mongo_env \<Rightarrow> pyval \<Rightarrow> py_error + pyval" where
  "Generation_from env generation_dict =
     (case generation_dict of
        PDict kw \<Rightarrow> new_Generation env kw
      | _ \<Rightarrow> Inl TypeError)"

text \<open>
  \<open>_load_generations_from_json\<close>, the legacy decoder: a \<open>JSONDecodeError\<close> inside
  the \<open>try\<close> block is raised again as \<open>ValueError\<close>, any other exception passes
  through unchanged.
\<close>

definition load_generations_from_json :: "mongo_env \<Rightarrow> pyval \<Rightarrow> py_error + pyval list" where
  "load_generations_from_json env generations_json =
     (case and_then (decode_with (json_loads env) generations_json) (\<lambda>results.
           and_then (py_iter results) (\<lambda>dicts. map_raise (Generation_from env) dicts)) of
        Inl JSONDecodeError \<Rightarrow> Inl ValueError
      | Inl e \<Rightarrow> Inl e
      | Inr generations \<Rightarrow> Inr generations)"

text \<open>\<open>generations.extend(x)\<close>.\<close>

definition list_extend :: "pyval list \<Rightarrow> pyval \<Rightarrow> py_error + pyval list" where
  "list_extend generations x = and_then (py_iter x) (\<lambda>items. Inr (generations @ items))"

text \<open>
  The body of the loop in \<open>lookup\<close> for one document: the structured codec first;
  on any exception (the handler warns and) the legacy decoder is run, outside any
  handler.
\<close>

definition decode_document ::
  "mongo_env \<Rightarrow> Document \<Rightarrow> pyval list \<Rightarrow> py_error + pyval list" where
  "decode_document env document generations =
     (case and_then (dict_item (metadata document) ''return_val'') (\<lambda>v.
           and_then (decode_with (loads env) v) (list_extend generations)) of
        Inr generations \<Rightarrow> Inr generations
      | Inl e \<Rightarrow>
          and_then (dict_item (metadata document) ''return_val'') (\<lambda>v.
          and_then (load_generations_from_json env (v)) (\<lambda>legacy.
            Inr (generations @ legacy))))"

fun decode_results :: "mongo_env \<Rightarrow> Document list \<Rightarrow> pyval list \<Rightarrow> py_error + pyval list" where
  "decode_results env [] generations = Inr generations"
| "decode_results env (document # results) generations =
     and_then (decode_document env document generations) (\<lambda>generations.
       decode_results env results generations)"

text \<open>\<open>self.score_threshold or 0.0\<close>.\<close>

definition threshold_or_zero :: "real option \<Rightarrow> real" where
  "threshold_or_zero t = (case t of None \<Rightarrow> 0 | Some x \<Rightarrow> if x \<noteq> 0 then x else 0)"

text \<open>
  The search that \<open>lookup\<close> runs on the store of the signature: one nearest
  neighbour, with the cache's settings and \<open>self.score_threshold or 0.0\<close> as the
  threshold.
\<close>

definition cache_search ::
  "mongo_env \<Rightarrow> mongo_cache \<Rightarrow> vcore_store \<Rightarrow> string \<Rightarrow> py_error + Document list" where
  "cache_search env self llm_cache prompt =
     similarity_search env llm_cache (documents (collection self)) prompt (Some 1)
       (Some (cache_kind self)) None (Some (cache_ef_search self))
       (Some (threshold_or_zero (cache_score_threshold self)))
       (Some (cache_l_search self)) None (Some (cache_oversampling self))"

text \<open>
  \<open>lookup\<close>: the result is the list of generations, \<open>None\<close> when it is empty, or the
  exception raised; the cache is returned with its registry as \<open>_get_llm_cache\<close> left
  it.
\<close>

definition lookup ::
  "mongo_env \<Rightarrow> mongo_cache \<Rightarrow> string \<Rightarrow> string
     \<Rightarrow> (py_error + pyval list option) \<times> mongo_cache" where
  "lookup env self prompt llm_string =
     (case get_llm_cache env self llm_string of
        (llm_cache, self) \<Rightarrow>
          (and_then (cache_search env self llm_cache prompt) (\<lambda>results.
             and_then (decode_results env results []) (\<lambda>generations.
               Inr (if generations \<noteq> [] then Some generations else None))),
           self))"

text \<open>
  \<open>isinstance(gen, Generation)\<close>: an instance of \<open>Generation\<close> or of one of its
  subclasses in \<open>langchain_core.outputs\<close>.
\<close>

definition is_Generation :: "pyval \<Rightarrow> bool" where
  "is_Generation gen =
     (case gen of
        PObj c attrs \<Rightarrow>
          c \<in> set [''Generation'', ''GenerationChunk'', ''ChatGeneration'',
                     ''ChatGenerationChunk'']
      | _ \<Rightarrow> False)"

definition update ::
  "mongo_env \<Rightarrow> mongo_cache \<Rightarrow> string \<Rightarrow> string \<Rightarrow> pyval list
     \<Rightarrow> (py_error + unit) \<times> mongo_cache" where
  "update env self prompt llm_string return_val =
     (if \<not> list_all is_Generation return_val then (Inl ValueError, self)
      else
        case get_llm_cache env self llm_string of
          (llm_cache, self) \<Rightarrow>
            let meta = PDict [(''llm_string'', PStr llm_string),
                              (''prompt'', PStr prompt),
                              (''return_val'', PStr (dumps env return_val))]
            in (case add_texts env llm_cache (collection self) [prompt] (Some [meta]) None of
                  (Inl e, coll) \<Rightarrow> (Inl e, self\<lparr>collection := coll\<rparr>)
                | (Inr ids, coll) \<Rightarrow> (Inr (), self\<lparr>collection := coll\<rparr>)))"

text \<open>
  \<open>clear(**kwargs)\<close>: the signature is read from the keyword arguments and hashed;
  if its index name is in the registry, every document of the store's collection is
  deleted. The result is the exception raised, if any, and the cache afterwards.
\<close>

definition clear :: "mongo_env \<Rightarrow> mongo_cache \<Rightarrow> pydict \<Rightarrow> py_error option \<times> mongo_cache" where
  "clear env self kwargs =
     (case dict_item kwargs ''llm_string'' of
        Inl e \<Rightarrow> (Some e, self)
      | Inr (PStr llm_string) \<Rightarrow>
          (let name = cache_index_name env llm_string
           in if map_of (cache_dict self) name \<noteq> None then
                (None, self\<lparr>collection := delete_many_all (collection self)\<rparr>)
              else (None, self))
      | Inr _ \<Rightarrow> (Some AttributeError, self))"

section \<open>Semantic cache on Cosmos DB NoSQL\<close>

text \<open>
  The NoSQL cache keeps the same kind of registry; its stores are handles of a class
  outside these sources, so their type is left open. The account holds databases by
  name, each with its items. \<open>delete_database\<close> removes a database with everything
  in it and fails on a name the account does not have. \<open>cache_name\<close> is the
  method \<open>_cache_name\<close> and \<open>nosql_clear\<close> the method \<open>clear\<close> of
  \<open>AzureCosmosDBNoSqlSemanticCache\<close>.
\<close>

record 'h nosql_cache =
  ns_database_name :: string
  ns_cache_dict :: "(string \<times> 'h) list"
  ns_databases :: "(string \<times> pydict list) list"

definition delete_database ::
  "(string \<times> pydict list) list \<Rightarrow> string \<Rightarrow> py_error + (string \<times> pydict list) list" where
  "delete_database dbs name =
     (case map_of dbs name of
        None \<Rightarrow> Inl CosmosResourceNotFoundError
      | Some items \<Rightarrow> Inr (AList.delete name dbs))"

definition cache_name :: "mongo_env \<Rightarrow> string \<Rightarrow> string" where
  "cache_name env llm_string = ''cache:'' @ hash_str env llm_string"

definition nosql_clear ::
  "mongo_env \<Rightarrow> 'h nosql_cache \<Rightarrow> pydict \<Rightarrow> py_error option \<times> 'h nosql_cache" where
  "nosql_clear env self kwargs =
     (case dict_item kwargs ''llm_string'' of
        Inl e \<Rightarrow> (Some e, self)
      | Inr (PStr llm_string) \<Rightarrow>
          (let name = cache_name env llm_string
           in if map_of (ns_cache_dict self) name \<noteq> None then
                (case delete_database (ns_databases self) (ns_database_name self) of
                   Inl e \<Rightarrow> (Some e, self)
                 | Inr dbs \<Rightarrow> (None, self\<lparr>ns_databases := dbs\<rparr>))
              else (None, self))
      | Inr _ \<Rightarrow> (Some AttributeError, self))"

section \<open>Reading search results and cache states\<close>

text \<open>A backend row whose score compares below the threshold \<open>t\<close>.\<close>

definition row_score_below :: "real \<Rightarrow> pydict \<Rightarrow> bool" where
  "row_score_below t res =
     (case map_of res ''similarityScore'' of
        None \<Rightarrow> False
      | Some score \<Rightarrow> py_lt score t = Inr True)"

text \<open>The same services, with a backend that holds back every row below \<open>t\<close>.\<close>

definition drop_rows_below :: "real \<Rightarrow> mongo_env \<Rightarrow> mongo_env" where
  "drop_rows_below t env =
     env\<lparr>aggregate :=
       \<lambda>coll pipeline. filter (\<lambda>res. \<not> row_score_below t res) (aggregate env coll pipeline)\<rparr>"

text \<open>No score of a returned list compares below \<open>t\<close>.\<close>

definition scores_not_below :: "real \<Rightarrow> py_error + (Document \<times> pyval) list \<Rightarrow> bool" where
  "scores_not_below t result =
     (case result of
        Inl e \<Rightarrow> True
      | Inr docs \<Rightarrow> list_all (\<lambda>(doc, score). py_lt score t = Inr False) docs)"

text \<open>The documents that the search inside \<open>lookup\<close> finds.\<close>

definition found ::
  "mongo_env \<Rightarrow> mongo_cache \<Rightarrow> string \<Rightarrow> string \<Rightarrow> py_error + Document list" where
  "found env self prompt llm_string =
     (case get_llm_cache env self llm_string of
        (llm_cache, self) \<Rightarrow> cache_search env self llm_cache prompt)"

text \<open>\<open>generations if generations else None\<close>.\<close>

definition some_or_none :: "pyval list \<Rightarrow> pyval list option" where
  "some_or_none generations = (if generations \<noteq> [] then Some generations else None)"

text \<open>The signature that each stored cache entry was written under.\<close>

definition entry_signatures :: "mongo_cache \<Rightarrow> pyval list" where
  "entry_signatures self =
     map (\<lambda>d. case map_of d ''metadata'' of
                 Some (PDict m) \<Rightarrow> dict_get m ''llm_string'' PNone
               | _ \<Rightarrow> PNone)
         (documents (collection self))"

section \<open>Example data\<close>

text \<open>
  Services for the examples: the SHA-256 digests of the two signatures used, an
  embedding model with one output, a backend that answers a search with the first
  stored document at score 1, and codecs that know the payloads of the examples:
  \<open>[1]\<close> is JSON for a list with one number, \<open>not json\<close> is not JSON. No example
  reads back a payload that \<open>update\<close> wrote, so one fixed text stands for the output
  of \<open>dumps\<close>.
\<close>

definition example_digest :: "string \<Rightarrow> string" where
  "example_digest input =
     (if input = ''model-a'' then
        ''73f95cf180a19624e4be9a711fd53a90dadfffa410cc9cd2ba1999454a5b99b8''
      else if input = ''model-b'' then
        ''af30308345d789145d9087a8d6e5037a089e92239bc312bcaba0099bb8e20ba7''
      else [])"

definition example_decoder :: "string \<Rightarrow> py_error + pyval" where
  "example_decoder s =
     (if s = ''[1]'' then Inr (PList [PInt 1])
      else if s = ''[]'' then Inr (PList [])
      else Inl JSONDecodeError)"

definition example_env :: mongo_env where
  "example_env =
     \<lparr>sha256_hexdigest = example_digest,
      embed_query = (\<lambda>query. [1, 0]),
      embed_documents = map (\<lambda>text. [1, 0]),
      aggregate =
        (\<lambda>coll pipeline.
           map (\<lambda>d. [(''similarityScore'', PFloat 1), (''document'', PDict d)]) (take 1 coll)),
      loads = example_decoder,
      dumps = (\<lambda>generations. ''[]''),
      json_loads = example_decoder,
      new_Generation = (\<lambda>kw. Inr (PObj ''Generation'' kw))\<rparr>"

definition empty_cache :: mongo_cache where
  "empty_cache =
     \<lparr>cache_kind = VECTOR_IVF, cache_ef_search = 40, cache_l_search = 40,
      cache_score_threshold = None, cache_oversampling = PNone, cache_dict = [],
      collection = \<lparr>documents = [], indexes = [], inserted = 0\<rparr>\<rparr>"

definition example_generation :: pyval where
  "example_generation = PObj ''Generation'' [(''text'', PStr ''hi'')]"

text \<open>A cache after one \<open>update\<close> under each of two signatures.\<close>

definition two_entries :: mongo_cache where
  "two_entries =
     snd (update example_env
            (snd (update example_env empty_cache ''first prompt'' ''model-a''
                    [example_generation]))
            ''second prompt'' ''model-b'' [example_generation])"

text \<open>A stored cache entry with the given payload, as a backend row with a score.\<close>

definition cache_row :: "real \<Rightarrow> string \<Rightarrow> pydict" where
  "cache_row score payload =
     [(''similarityScore'', PFloat score),
      (''document'',
       PDict [(''_id'', PInt 0),
              (''textContent'', PStr ''first prompt''),
              (''vectorContent'', PList [PFloat 1, PFloat 0]),
              (''metadata'',
               PDict [(''llm_string'', PStr ''model-a''),
                      (''prompt'', PStr ''first prompt''),
                      (''return_val'', PStr payload)])])]"

text \<open>
  Two rows for the entry: one at score \<open>-0.5\<close> with a payload that no codec reads,
  one at score 1 with a payload that decodes.
\<close>

definition mixed_rows :: "pydict list" where
  "mixed_rows = [cache_row (- 1 / 2) ''not json'', cache_row 1 ''[1]'']"

text \<open>One row for the entry, with a payload that no codec reads.\<close>

definition unreadable_rows :: "pydict list" where
  "unreadable_rows = [cache_row 1 ''not json'']"

text \<open>The document that the store makes of that entry.\<close>

definition first_entry :: "string \<Rightarrow> Document" where
  "first_entry payload =
     \<lparr>page_content = ''first prompt'',
      metadata = [(''llm_string'', PStr ''model-a''), (''prompt'', PStr ''first prompt''),
                  (''return_val'', PStr payload), (''_id'', PInt 0)]\<rparr>"

text \<open>
  A NoSQL cache that has resolved the first signature; its database holds one entry of
  each signature.
\<close>

definition nosql_two_entries :: "unit nosql_cache" where
  "nosql_two_entries =
     \<lparr>ns_database_name = ''CosmosNoSqlCacheDB'',
      ns_cache_dict = [(''cache:'' @ example_digest ''model-a'', ())],
      ns_databases =
        [(''CosmosNoSqlCacheDB'',
          [[(''id'', PStr ''1''), (''llm_string'', PStr ''model-a'')],
           [(''id'', PStr ''2''), (''llm_string'', PStr ''model-b'')]])]\<rparr>"

text \<open>The example services with a backend that returns the given rows.\<close>

definition env_with_rows :: "pydict list \<Rightarrow> mongo_env" where
  "env_with_rows rows = example_env\<lparr>aggregate := (\<lambda>coll pipeline. rows)\<rparr>"

section \<open>Azure AI Search: ingestion\<close>

text \<open>The field names of the index, at their default values, and the batch bound.\<close>

definition FIELDS_ID :: string where
  "FIELDS_ID = ''id''"

definition FIELDS_CONTENT :: string where
  "FIELDS_CONTENT = ''content''"

definition FIELDS_CONTENT_VECTOR :: string where
  "FIELDS_CONTENT_VECTOR = ''content_vector''"

definition FIELDS_METADATA :: string where
  "FIELDS_METADATA = ''metadata''"

definition MAX_UPLOAD_BATCH_SIZE :: nat where
  "MAX_UPLOAD_BATCH_SIZE = 1000"

text \<open>
  \<open>base64.urlsafe_b64encode\<close> on the bytes of a string (a \<open>string\<close> here is the
  UTF-8 byte sequence): three bytes give four characters of the URL-safe alphabet, and
  a last group of one or two bytes is padded with \<open>=\<close>.
\<close>

definition b64_alphabet :: string where
  "b64_alphabet = ''ABCDEFGHIJKLMNOPQRSTUVWXYZabcdefghijklmnopqrstuvwxyz0123456789-_''"

definition b64_char :: "nat \<Rightarrow> char" where
  "b64_char n = b64_alphabet ! (n mod 64)"

fun b64_groups :: "nat list \<Rightarrow> string" where
  "b64_groups [] = []"
| "b64_groups [a] =
     [b64_char (a div 4), b64_char ((a mod 4) * 16), CHR ''='', CHR ''='']"
| "b64_groups [a, b] =
     [b64_char (a div 4), b64_char ((a mod 4) * 16 + b div 16), b64_char ((b mod 16) * 4),
      CHR ''='']"
| "b64_groups (a # b # c # rest) =
     [b64_char (a div 4), b64_char ((a mod 4) * 16 + b div 16),
      b64_char ((b mod 16) * 4 + c div 64), b64_char (c mod 64)] @ b64_groups rest"

definition urlsafe_b64encode :: "string \<Rightarrow> string" where
  "urlsafe_b64encode s = b64_groups (map of_char s)"

text \<open>
  A search request as \<open>_simple_search\<close> and the semantic search send it, and the
  backend's answer: the result rows and, for a semantic query, the extracted answers
  (key, text, highlights).
\<close>

record search_request =
  search_text :: string
  vector :: "real list"
  k_nearest_neighbors :: int
  filter_expr :: "string option"
  top :: int
  query_type :: "string option"

record search_response =
  rows :: "pydict list"
  answers :: "(string \<times> pyval \<times> pyval) list option"

text \<open>
  The services outside the repository that the Azure AI Search store calls: the UUID
  generator (its \<open>i\<close>-th value), \<open>json.dumps\<close> and \<open>json.loads\<close>, the conversion
  of a vector to 32-bit floats, \<open>float\<close> on a string, the backend's upload (its
  per-document report for a batch, given the batches uploaded before) and search, the
  embedding model and \<open>maximal_marginal_relevance\<close>.
\<close>

record search_env =
  uuid4 :: "nat \<Rightarrow> string"
  json_dumps :: "pydict \<Rightarrow> string"
  search_json_loads :: "string \<Rightarrow> py_error + pyval"
  to_float32 :: "real list \<Rightarrow> real list"
  float_of_str :: "string \<Rightarrow> real option"
  upload_documents :: "pydict list list \<Rightarrow> pydict list \<Rightarrow> indexing_result list"
  client_search :: "search_request \<Rightarrow> search_response"
  search_embed_query :: "string \<Rightarrow> real list"
  maximal_marginal_relevance ::
    "real list \<Rightarrow> pyval list \<Rightarrow> int \<Rightarrow> real \<Rightarrow> py_error + int list"

text \<open>The part of an \<open>AzureSearch\<close> object that ingestion reads: the index's field names.\<close>

record azure_search =
  field_names :: "string list"

text \<open>\<open>xs[i]\<close> for a position \<open>i\<close> counted from 0.\<close>

definition list_item :: "'a list \<Rightarrow> nat \<Rightarrow> py_error + 'a" where
  "list_item xs i = (if i < length xs then Inr (xs ! i) else Inl IndexError)"

text \<open>
  An optional list argument read as a list: \<open>if keys:\<close> and \<open>if metadatas:\<close> hold
  exactly when the argument is a list with at least one element.
\<close>

definition given_list :: "'a list option \<Rightarrow> 'a list" where
  "given_list xs = (case xs of None \<Rightarrow> [] | Some ys \<Rightarrow> ys)"

text \<open>
  The key of the \<open>i\<close>-th document. \<open>add_embeddings\<close> takes a provided key as it is
  and encodes only a generated UUID; \<open>aadd_embeddings\<close> encodes whichever it took.
\<close>

definition sync_key :: "search_env \<Rightarrow> string list option \<Rightarrow> nat \<Rightarrow> py_error + string" where
  "sync_key env keys i =
     (if given_list keys \<noteq> [] then list_item (given_list keys) i
      else Inr (urlsafe_b64encode (uuid4 env i)))"

definition async_key :: "search_env \<Rightarrow> string list option \<Rightarrow> nat \<Rightarrow> py_error + string" where
  "async_key env keys i =
     and_then
       (if given_list keys \<noteq> [] then list_item (given_list keys) i else Inr (uuid4 env i))
       (\<lambda>key. Inr (urlsafe_b64encode key))"

text \<open>\<open>metadatas[i] if metadatas else {}\<close>.\<close>

definition metadata_at :: "pydict list option \<Rightarrow> nat \<Rightarrow> py_error + pydict" where
  "metadata_at metadatas i =
     (if given_list metadatas \<noteq> [] then list_item (given_list metadatas) i else Inr [])"

text \<open>
  The document sent for one text: the five standard fields, then every metadata entry
  whose key is the name of an index field.
\<close>

definition upload_doc ::
  "search_env \<Rightarrow> azure_search \<Rightarrow> string \<Rightarrow> string \<Rightarrow> real list \<Rightarrow> pydict \<Rightarrow> pydict" where
  "upload_doc env self key text embedding meta =
     (let doc = [(''@search.action'', PStr ''upload''),
                 (FIELDS_ID, PStr key),
                 (FIELDS_CONTENT, PStr text),
                 (FIELDS_CONTENT_VECTOR, PList (map PFloat (to_float32 env embedding))),
                 (FIELDS_METADATA, PStr (json_dumps env meta))]
      in if meta \<noteq> [] then
           dict_update doc (filter (\<lambda>(k, v). k \<in> set (field_names self)) meta)
         else doc)"

text \<open>
  One upload: the backend's report for the batch, appended with the batch to the log of
  calls made so far.
\<close>

definition do_upload ::
  "search_env \<Rightarrow> (pydict list \<times> indexing_result list) list \<Rightarrow> pydict list
     \<Rightarrow> indexing_result list \<times> (pydict list \<times> indexing_result list) list" where
  "do_upload env calls batch =
     (let response = upload_documents env (map fst calls) batch
      in (response, calls @ [(batch, response)]))"

text \<open>
  The loop shared, line by line, by \<open>add_embeddings\<close> and \<open>aadd_embeddings\<close>, from
  position \<open>i\<close> on; \<open>key_of\<close> is the one place where the two differ. The result
  is the exception raised or the locals \<open>ids\<close> and \<open>data\<close> at the end of the
  loop, together with the log of uploads.
\<close>

fun embeddings_loop ::
  "search_env \<Rightarrow> azure_search \<Rightarrow> (nat \<Rightarrow> py_error + string) \<Rightarrow> pydict list option \<Rightarrow> nat
     \<Rightarrow> (string \<times> real list) list \<Rightarrow> string list \<Rightarrow> pydict list
     \<Rightarrow> (pydict list \<times> indexing_result list) list
     \<Rightarrow> (py_error + (string list \<times> pydict list))
         \<times> (pydict list \<times> indexing_result list) list" where
  "embeddings_loop env self key_of metadatas i [] ids batch calls = (Inr (ids, batch), calls)"
| "embeddings_loop env self key_of metadatas i ((text, embedding) # rest) ids batch calls =
     (case key_of i of
        Inl e \<Rightarrow> (Inl e, calls)
      | Inr key \<Rightarrow>
          (case metadata_at metadatas i of
             Inl e \<Rightarrow> (Inl e, calls)
           | Inr meta \<Rightarrow>
               (let batch = batch @ [upload_doc env self key text embedding meta];
                    ids = ids @ [key]
                in if length batch = MAX_UPLOAD_BATCH_SIZE then
                     (case do_upload env calls batch of
                        (response, calls) \<Rightarrow>
                          if \<not> list_all succeeded response then
                            (Inl (LangChainException response), calls)
                          else
                            embeddings_loop env self key_of metadatas (i + 1) rest ids []
                              calls)
                   else
                     embeddings_loop env self key_of metadatas (i + 1) rest ids batch
                       calls)))"

text \<open>After the loop: nothing left to send, or one last upload.\<close>

definition embeddings_upload ::
  "search_env \<Rightarrow> azure_search \<Rightarrow> (nat \<Rightarrow> py_error + string) \<Rightarrow> pydict list option
     \<Rightarrow> (string \<times> real list) list
     \<Rightarrow> (py_error + string list) \<times> (pydict list \<times> indexing_result list) list" where
  "embeddings_upload env self key_of metadatas text_embeddings =
     (case embeddings_loop env self key_of metadatas 0 text_embeddings [] [] [] of
        (Inl e, calls) \<Rightarrow> (Inl e, calls)
      | (Inr (ids, batch), calls) \<Rightarrow>
          if length batch = 0 then (Inr ids, calls)
          else
            (case do_upload env calls batch of
               (response, calls) \<Rightarrow>
                 if list_all succeeded response then (Inr ids, calls)
                 else (Inl (LangChainException response), calls)))"

definition add_embeddings ::
  "search_env \<Rightarrow> azure_search \<Rightarrow> (string \<times> real list) list \<Rightarrow> pydict list option
     \<Rightarrow> string list option
     \<Rightarrow> (py_error + string list) \<times> (pydict list \<times> indexing_result list) list" where
  "add_embeddings env self text_embeddings metadatas keys =
     embeddings_upload env self (sync_key env keys) metadatas text_embeddings"

definition aadd_embeddings ::
  "search_env \<Rightarrow> azure_search \<Rightarrow> (string \<times> real list) list \<Rightarrow> pydict list option
     \<Rightarrow> string list option
     \<Rightarrow> (py_error + string list) \<times> (pydict list \<times> indexing_result list) list" where
  "aadd_embeddings env self text_embeddings metadatas keys =
     embeddings_upload env self (async_key env keys) metadatas text_embeddings"

text \<open>The \<open>id\<close> field of every document uploaded, in order.\<close>

definition uploaded_ids :: "(pydict list \<times> indexing_result list) list \<Rightarrow> pyval option list" where
  "uploaded_ids calls = map (\<lambda>doc. map_of doc FIELDS_ID) (concat (map fst calls))"

section \<open>Azure AI Search: result rows and reordering\<close>

text \<open>\<open>float(x)\<close>.\<close>

fun py_float :: "search_env \<Rightarrow> pyval \<Rightarrow> py_error + real" where
  "py_float env (PFloat x) = Inr x"
| "py_float env (PInt i) = Inr (real_of_int i)"
| "py_float env (PBool b) = Inr (if b then 1 else 0)"
| "py_float env (PStr s) =
     (case float_of_str env s of None \<Rightarrow> Inl ValueError | Some x \<Rightarrow> Inr x)"
| "py_float env PNone = Inl TypeError"
| "py_float env (PList xs) = Inl TypeError"
| "py_float env (PDict d) = Inl TypeError"
| "py_float env (PObj c attrs) = Inl TypeError"

text \<open>\<open>**x\<close> inside a dictionary display: \<open>x\<close> must be a mapping.\<close>

definition as_mapping :: "pyval \<Rightarrow> py_error + pydict" where
  "as_mapping x = (case x of PDict d \<Rightarrow> Inr d | _ \<Rightarrow> Inl TypeError)"

text \<open>
  \<open>{FIELDS_ID: result.pop(FIELDS_ID)} if FIELDS_ID in result else {}\<close>, with the row
  as the \<open>pop\<close> leaves it.
\<close>

definition pop_id :: "pydict \<Rightarrow> pydict \<times> pydict" where
  "pop_id result =
     (case map_of result FIELDS_ID of
        Some v \<Rightarrow> ([(FIELDS_ID, v)], AList.delete FIELDS_ID result)
      | None \<Rightarrow> ([], result))"

text \<open>
  \<open>_result_to_document\<close>. A metadata field that is already a dictionary is taken as
  it is; any other value goes through \<open>json.loads\<close>; without the field, the other
  fields of the row are the metadata. The row is returned as the function leaves it,
  since it pops the id from the caller's dictionary.
\<close>

definition result_to_document :: "search_env \<Rightarrow> pydict \<Rightarrow> py_error + (Document \<times> pydict)" where
  "result_to_document env result =
     and_then
       (case map_of result FIELDS_METADATA of
          Some (PDict m) \<Rightarrow> Inr (PDict m)
        | Some v \<Rightarrow> decode_with (search_json_loads env) v
        | None \<Rightarrow>
            Inr (PDict (filter (\<lambda>(k, v). k \<notin> set [FIELDS_CONTENT_VECTOR, FIELDS_CONTENT])
                          result)))
       (\<lambda>fields_metadata.
          case pop_id result of
            (fields_id, result) \<Rightarrow>
              and_then (dict_item result FIELDS_CONTENT) (\<lambda>content.
              and_then (as_mapping fields_metadata) (\<lambda>m.
              and_then (new_Document content (PDict (dict_update fields_id m))) (\<lambda>doc.
                Inr (doc, result)))))"

text \<open>\<open>_results_to_documents\<close>, for one row and for all.\<close>

definition scored_document :: "search_env \<Rightarrow> pydict \<Rightarrow> py_error + (Document \<times> real)" where
  "scored_document env result =
     and_then (result_to_document env result) (\<lambda>(doc, result).
     and_then (dict_item result ''@search.score'') (\<lambda>raw.
     and_then (py_float env raw) (\<lambda>score. Inr (doc, score))))"

definition results_to_documents ::
  "search_env \<Rightarrow> pydict list \<Rightarrow> py_error + (Document \<times> real) list" where
  "results_to_documents env results = map_raise (scored_document env) results"

text \<open>The triple that the reordering functions build for one row.\<close>

definition mmr_candidate ::
  "search_env \<Rightarrow> pydict \<Rightarrow> py_error + (Document \<times> real \<times> pyval)" where
  "mmr_candidate env result =
     and_then (result_to_document env result) (\<lambda>(doc, result).
     and_then (dict_item result ''@search.score'') (\<lambda>raw.
     and_then (py_float env raw) (\<lambda>score.
     and_then (dict_item result FIELDS_CONTENT_VECTOR) (\<lambda>vec.
       Inr (doc, score, vec)))))"

text \<open>
  \<open>documents, scores, vectors = map(list, zip(*docs))\<close>: with no candidate the
  \<open>zip\<close> is empty and the assignment to three names raises \<open>ValueError\<close>.
\<close>

definition unzip3 ::
  "(Document \<times> real \<times> pyval) list \<Rightarrow> py_error + (Document list \<times> real list \<times> pyval list)" where
  "unzip3 docs =
     (if docs = [] then Inl ValueError
      else Inr (map fst docs, map (\<lambda>d. fst (snd d)) docs, map (\<lambda>d. snd (snd d)) docs))"

text \<open>\<open>xs[x]\<close> for an integer \<open>x\<close>: a negative index counts from the end.\<close>

definition list_index :: "'a list \<Rightarrow> int \<Rightarrow> py_error + 'a" where
  "list_index xs x =
     (let n = int (length xs);
          j = (if x < 0 then x + n else x)
      in if 0 \<le> j \<and> j < n then Inr (xs ! nat j) else Inl IndexError)"

text \<open>The loop over the new ordering, which stops at the index \<open>-1\<close>.\<close>

fun pick_reordered ::
  "Document list \<Rightarrow> real list \<Rightarrow> int list \<Rightarrow> (Document \<times> real) list
     \<Rightarrow> py_error + (Document \<times> real) list" where
  "pick_reordered docs scores [] ret = Inr ret"
| "pick_reordered docs scores (x # new_ordering) ret =
     (if x = - 1 then Inr ret
      else
        and_then (list_index docs x) (\<lambda>doc.
        and_then (list_index scores x) (\<lambda>score.
          pick_reordered docs scores new_ordering (ret @ [(doc, score)]))))"

text \<open>Both reordering functions from the unpacking on.\<close>

definition reorder_candidates ::
  "search_env \<Rightarrow> (Document \<times> real \<times> pyval) list \<Rightarrow> real list \<Rightarrow> real option \<Rightarrow> int option
     \<Rightarrow> py_error + (Document \<times> real) list" where
  "reorder_candidates env docs query_embedding lambda_mult k =
     and_then (unzip3 docs) (\<lambda>(documents, scores, vectors).
     and_then
       (maximal_marginal_relevance env query_embedding vectors (arg_or 4 k)
          (arg_or (1 / 2) lambda_mult))
       (\<lambda>new_ordering. pick_reordered documents scores new_ordering []))"

text \<open>
  \<open>_reorder_results_with_maximal_marginal_relevance\<close> returns the empty list when
  there is no candidate; \<open>_areorder_results_with_maximal_marginal_relevance\<close> has no
  such test.
\<close>

definition reorder_results_with_maximal_marginal_relevance ::
  "search_env \<Rightarrow> pydict list \<Rightarrow> real list \<Rightarrow> real option \<Rightarrow> int option
     \<Rightarrow> py_error + (Document \<times> real) list" where
  "reorder_results_with_maximal_marginal_relevance env results query_embedding lambda_mult k =
     and_then (map_raise (mmr_candidate env) results) (\<lambda>docs.
       if docs = [] then Inr []
       else reorder_candidates env docs query_embedding lambda_mult k)"

definition areorder_results_with_maximal_marginal_relevance ::
  "search_env \<Rightarrow> pydict list \<Rightarrow> real list \<Rightarrow> real option \<Rightarrow> int option
     \<Rightarrow> py_error + (Document \<times> real) list" where
  "areorder_results_with_maximal_marginal_relevance env results query_embedding lambda_mult k =
     and_then (map_raise (mmr_candidate env) results) (\<lambda>docs.
       reorder_candidates env docs query_embedding lambda_mult k)"

text \<open>\<open>_simple_search\<close> and \<open>_asimple_search\<close>: the rows of a vector or hybrid query.\<close>

definition simple_search ::
  "search_env \<Rightarrow> real list \<Rightarrow> string \<Rightarrow> int \<Rightarrow> string option \<Rightarrow> pydict list" where
  "simple_search env embedding text_query k filters =
     rows (client_search env
       \<lparr>search_text = text_query, vector = to_float32 env embedding,
        k_nearest_neighbors = k, filter_expr = filters, top = k, query_type = None\<rparr>)"

text \<open>
  The four MMR searches: vector-only (empty text query) and hybrid (the query as text),
  each synchronous and asynchronous, fetching \<open>fetch_k\<close> (default 20) candidates.
\<close>

definition max_marginal_relevance_search_with_score ::
  "search_env \<Rightarrow> string \<Rightarrow> int option \<Rightarrow> int option \<Rightarrow> real option \<Rightarrow> string option
     \<Rightarrow> py_error + (Document \<times> real) list" where
  "max_marginal_relevance_search_with_score env query k fetch_k lambda_mult filters =
     (let embedding = search_embed_query env query;
          results = simple_search env embedding [] (arg_or 20 fetch_k) filters
      in reorder_results_with_maximal_marginal_relevance env results embedding
           (Some (arg_or (1 / 2) lambda_mult)) (Some (arg_or 4 k)))"

definition amax_marginal_relevance_search_with_score ::
  "search_env \<Rightarrow> string \<Rightarrow> int option \<Rightarrow> int option \<Rightarrow> real option \<Rightarrow> string option
     \<Rightarrow> py_error + (Document \<times> real) list" where
  "amax_marginal_relevance_search_with_score env query k fetch_k lambda_mult filters =
     (let embedding = search_embed_query env query;
          results = simple_search env embedding [] (arg_or 20 fetch_k) filters
      in areorder_results_with_maximal_marginal_relevance env results embedding
           (Some (arg_or (1 / 2) lambda_mult)) (Some (arg_or 4 k)))"

definition hybrid_max_marginal_relevance_search_with_score ::
  "search_env \<Rightarrow> string \<Rightarrow> int option \<Rightarrow> int option \<Rightarrow> real option \<Rightarrow> string option
     \<Rightarrow> py_error + (Document \<times> real) list" where
  "hybrid_max_marginal_relevance_search_with_score env query k fetch_k lambda_mult filters =
     (let embedding = search_embed_query env query;
          results = simple_search env embedding query (arg_or 20 fetch_k) filters
      in reorder_results_with_maximal_marginal_relevance env results embedding
           (Some (arg_or (1 / 2) lambda_mult)) (Some (arg_or 4 k)))"

definition ahybrid_max_marginal_relevance_search_with_score ::
  "search_env \<Rightarrow> string \<Rightarrow> int option \<Rightarrow> int option \<Rightarrow> real option \<Rightarrow> string option
     \<Rightarrow> py_error + (Document \<times> real) list" where
  "ahybrid_max_marginal_relevance_search_with_score env query k fetch_k lambda_mult filters =
     (let embedding = search_embed_query env query;
          results = simple_search env embedding query (arg_or 20 fetch_k) filters
      in areorder_results_with_maximal_marginal_relevance env results embedding
           (Some (arg_or (1 / 2) lambda_mult)) (Some (arg_or 4 k)))"

section \<open>Azure AI Search: semantic hybrid search\<close>

text \<open>
  The dictionary of semantic answers by document key; \<open>get_answers() or []\<close> turns a
  missing list into the empty one.
\<close>

definition semantic_answers_dict :: "(string \<times> pyval \<times> pyval) list option \<Rightarrow> pydict" where
  "semantic_answers_dict semantic_answers =
     fold (\<lambda>(key, answer_text, highlights) d.
             dict_set d key (PDict [(''text'', answer_text), (''highlights'', highlights)]))
          (case semantic_answers of None \<Rightarrow> [] | Some xs \<Rightarrow> xs) []"

text \<open>\<open>x[0]\<close> and \<open>x.name\<close>.\<close>

fun first_item :: "pyval \<Rightarrow> py_error + pyval" where
  "first_item (PList []) = Inl IndexError"
| "first_item (PList (x # xs)) = Inr x"
| "first_item (PStr []) = Inl IndexError"
| "first_item (PStr (c # cs)) = Inr (PStr [c])"
| "first_item (PDict d) = Inl (KeyError ''0'')"
| "first_item PNone = Inl TypeError"
| "first_item (PBool b) = Inl TypeError"
| "first_item (PInt i) = Inl TypeError"
| "first_item (PFloat x) = Inl TypeError"
| "first_item (PObj c attrs) = Inl TypeError"

definition get_attr :: "pyval \<Rightarrow> string \<Rightarrow> py_error + pyval" where
  "get_attr obj name =
     (case obj of
        PObj c attrs \<Rightarrow>
          (case map_of attrs name of None \<Rightarrow> Inl AttributeError | Some v \<Rightarrow> Inr v)
      | _ \<Rightarrow> Inl AttributeError)"

text \<open>The \<open>captions\<close> entry: text and highlights of the first caption, if there is one.\<close>

definition captions_of :: "pydict \<Rightarrow> py_error + pyval" where
  "captions_of result =
     (if truthy (dict_get result ''@search.captions'' PNone) then
        and_then (first_item (dict_get result ''@search.captions'' (PList [PDict []])))
          (\<lambda>caption.
        and_then (get_attr caption ''text'') (\<lambda>caption_text.
        and_then (first_item (dict_get result ''@search.captions'' (PList [PDict []])))
          (\<lambda>caption.
        and_then (get_attr caption ''highlights'') (\<lambda>highlights.
          Inr (PDict [(''text'', caption_text), (''highlights'', highlights)])))))
      else Inr (PDict []))"

text \<open>\<open>semantic_answers_dict.get(key, "")\<close> for a key read from the row.\<close>

definition answer_for :: "pydict \<Rightarrow> pyval \<Rightarrow> pyval" where
  "answer_for answers_dict key =
     (case key of PStr s \<Rightarrow> dict_get answers_dict s (PStr []) | _ \<Rightarrow> PStr [])"

text \<open>
  One row of the comprehension in \<open>semantic_hybrid_search_with_score_and_rerank\<close>
  (and, word for word, in its asynchronous sibling): the content and the id are popped,
  a metadata field is always passed to \<open>json.loads\<close>, captions and answers are added,
  and the two scores are read last.
\<close>

definition semantic_row_to_doc ::
  "search_env \<Rightarrow> pydict \<Rightarrow> pydict \<Rightarrow> py_error + (Document \<times> real \<times> real)" where
  "semantic_row_to_doc env answers_dict result =
     and_then (dict_pop result FIELDS_CONTENT) (\<lambda>(content, result).
     case pop_id result of
       (fields_id, result) \<Rightarrow>
         and_then
           (case map_of result FIELDS_METADATA of
              Some v \<Rightarrow> and_then (decode_with (search_json_loads env) v) as_mapping
            | None \<Rightarrow> Inr (filter (\<lambda>(k, v). k \<noteq> FIELDS_CONTENT_VECTOR) result))
           (\<lambda>m.
         and_then (captions_of result) (\<lambda>captions.
         and_then
           (new_Document content
              (PDict (dict_update (dict_update fields_id m)
                        [(''captions'', captions),
                         (''answers'',
                          answer_for answers_dict (dict_get result FIELDS_ID (PStr [])))])))
           (\<lambda>doc.
         and_then (and_then (dict_item result ''@search.score'') (py_float env)) (\<lambda>score.
         and_then (and_then (dict_item result ''@search.reranker_score'') (py_float env))
           (\<lambda>reranker_score.
           Inr (doc, score, reranker_score)))))))"

definition semantic_hybrid_search_with_score_and_rerank ::
  "search_env \<Rightarrow> string \<Rightarrow> int option \<Rightarrow> string option
     \<Rightarrow> py_error + (Document \<times> real \<times> real) list" where
  "semantic_hybrid_search_with_score_and_rerank env query k filters =
     (let results =
            client_search env
              \<lparr>search_text = query, vector = to_float32 env (search_embed_query env query),
               k_nearest_neighbors = arg_or 4 k, filter_expr = filters, top = arg_or 4 k,
               query_type = Some ''semantic''\<rparr>;
          answers_dict = semantic_answers_dict (answers results)
      in map_raise (semantic_row_to_doc env answers_dict) (rows results))"

definition asemantic_hybrid_search_with_score_and_rerank ::
  "search_env \<Rightarrow> string \<Rightarrow> int option \<Rightarrow> string option
     \<Rightarrow> py_error + (Document \<times> real \<times> real) list" where
  "asemantic_hybrid_search_with_score_and_rerank env query k filters =
     (let vec = search_embed_query env query;
          results =
            client_search env
              \<lparr>search_text = query, vector = to_float32 env vec,
               k_nearest_neighbors = arg_or 4 k, filter_expr = filters, top = arg_or 4 k,
               query_type = Some ''semantic''\<rparr>;
          answers_dict = semantic_answers_dict (answers results)
      in map_raise (semantic_row_to_doc env answers_dict) (rows results))"

text \<open>A backend row whose metadata field already holds a dictionary.\<close>

definition decoded_row :: pydict where
  "decoded_row =
     [(''id'', PStr ''1''),
      (''content'', PStr ''hello''),
      (''content_vector'', PList [PFloat 1, PFloat 0]),
      (''metadata'', PDict [(''source'', PStr ''a'')]),
      (''@search.score'', PFloat 1),
      (''@search.reranker_score'', PFloat 2)]"

text \<open>
  What a run of the ingestion must look like, for \<open>n\<close> input pairs, given its outcome
  and its log of uploads. Every batch is non-empty and has at most
  \<open>MAX_UPLOAD_BATCH_SIZE\<close> documents. Every upload before the last was reported as
  fully successful, so no upload follows a failed one. A returned list of ids means that
  every upload succeeded and that the uploads together carry one document per input
  pair. A \<open>LangChainException\<close> carries the report of the last upload, which names
  a failed document. Any other exception leaves only successful uploads behind.
\<close>

definition call_ok :: "pydict list \<times> indexing_result list \<Rightarrow> bool" where
  "call_ok call = list_all succeeded (snd call)"

definition batch_ok :: "pydict list \<times> indexing_result list \<Rightarrow> bool" where
  "batch_ok call = (fst call \<noteq> [] \<and> length (fst call) \<le> MAX_UPLOAD_BATCH_SIZE)"

definition upload_report ::
  "nat \<Rightarrow> (py_error + string list) \<times> (pydict list \<times> indexing_result list) list \<Rightarrow> bool" where
  "upload_report n result =
     (case result of
        (outcome, calls) \<Rightarrow>
          list_all batch_ok calls
          \<and> list_all call_ok (butlast calls)
          \<and> (case outcome of
                Inr ids \<Rightarrow>
                  list_all call_ok calls
                  \<and> length (concat (map fst calls)) = n
                  \<and> length ids = n
              | Inl (LangChainException response) \<Rightarrow>
                  calls \<noteq> [] \<and> snd (last calls) = response
                  \<and> \<not> list_all succeeded response
              | Inl e \<Rightarrow> list_all call_ok calls))"

text \<open>
  The ingestion as the specification words it, to compare the code with. The documents
  are cut into consecutive batches of \<open>n\<close>, the last one possibly shorter.
\<close>

function chunks :: "nat \<Rightarrow> 'a list \<Rightarrow> 'a list list" where
  "chunks n xs = (if n = 0 \<or> xs = [] then [] else take n xs # chunks n (drop n xs))"
  by pat_completeness auto
termination
  by (relation "measure (\<lambda>(n, xs). length xs)") auto

declare chunks.simps [simp del]

text \<open>
  The batches are uploaded in order, each with the batches uploaded before it as the
  backend's history, until the backend reports a failed document: that report is the
  failure, and no later batch is sent. The result is the failure, if any, and the log
  of the uploads made.
\<close>

fun run_batches ::
  "search_env \<Rightarrow> pydict list list \<Rightarrow> pydict list list
     \<Rightarrow> indexing_result list option \<times> (pydict list \<times> indexing_result list) list" where
  "run_batches env earlier [] = (None, [])"
| "run_batches env earlier (batch # batches) =
     (let response = upload_documents env earlier batch
      in if list_all succeeded response then
           (case run_batches env (earlier @ [batch]) batches of
              (failure, calls) \<Rightarrow> (failure, (batch, response) # calls))
         else (Some response, [(batch, response)]))"

text \<open>
  The whole call: the ids when every batch was stored, otherwise a
  \<open>LangChainException\<close> with the report of the batch that failed.
\<close>

definition batched_upload ::
  "search_env \<Rightarrow> string list \<Rightarrow> pydict list
     \<Rightarrow> (py_error + string list) \<times> (pydict list \<times> indexing_result list) list" where
  "batched_upload env ids docs =
     (case run_batches env [] (chunks MAX_UPLOAD_BATCH_SIZE docs) of
        (None, calls) \<Rightarrow> (Inr ids, calls)
      | (Some response, calls) \<Rightarrow> (Inl (LangChainException response), calls))"








text \<open>
  The intermediate form of the description \<open>upload_report\<close> at the end of the loop,
  where \<open>batch\<close> holds the documents not yet sent; and the property of the two key
  functions that the only exception they raise is \<open>IndexError\<close>.
\<close>

definition loop_post ::
  "nat \<Rightarrow> (py_error + (string list \<times> pydict list)) \<times> (pydict list \<times> indexing_result list) list
     \<Rightarrow> bool" where
  "loop_post n result =
     (case result of
        (outcome, calls) \<Rightarrow>
          list_all batch_ok calls
          \<and> list_all call_ok (butlast calls)
          \<and> (case outcome of
                Inr (ids, batch) \<Rightarrow>
                  list_all call_ok calls
                  \<and> length batch < MAX_UPLOAD_BATCH_SIZE
                  \<and> length (concat (map fst calls)) + length batch = n
                  \<and> length ids = n
              | Inl (LangChainException response) \<Rightarrow>
                  calls \<noteq> [] \<and> snd (last calls) = response
                  \<and> \<not> list_all succeeded response
              | Inl e \<Rightarrow> list_all call_ok calls))"

definition index_errors_only :: "(nat \<Rightarrow> py_error + string) \<Rightarrow> bool" where
  "index_errors_only key_of = (\<forall>i e. key_of i = Inl e \<longrightarrow> e = IndexError)"

text \<open>
  Services for the ingestion examples: a backend that stores every document except one
  with the id \<open>bad\<close>, and an index with the four standard fields. The examples pass
  explicit keys and no metadata: no UUID is drawn (one fixed value stands for the
  generator), and \<open>json.dumps\<close> of the empty dictionary is \<open>{}\<close>.
\<close>

definition key_of_doc :: "pydict \<Rightarrow> string" where
  "key_of_doc doc = (case map_of doc FIELDS_ID of Some (PStr key) \<Rightarrow> key | _ \<Rightarrow> [])"

definition example_search_env :: search_env where
  "example_search_env =
     \<lparr>uuid4 = (\<lambda>i. ''3f2b8c1e-5d4a-4e6f-9a7b-0c1d2e3f4a5b''),
      json_dumps = (\<lambda>meta. ''{}''),
      search_json_loads = (\<lambda>s. Inl JSONDecodeError),
      to_float32 = (\<lambda>v. v),
      float_of_str = (\<lambda>s. None),
      upload_documents =
        (\<lambda>earlier batch.
           map (\<lambda>doc. \<lparr>ir_key = key_of_doc doc, succeeded = (key_of_doc doc \<noteq> ''bad'')\<rparr>)
             batch),
      client_search = (\<lambda>request. \<lparr>rows = [], answers = None\<rparr>),
      search_embed_query = (\<lambda>query. [1, 0]),
      maximal_marginal_relevance = (\<lambda>query vectors k lambda_mult. Inr [])\<rparr>"

definition example_index :: azure_search where
  "example_index = \<lparr>field_names = [''id'', ''content'', ''content_vector'', ''metadata'']\<rparr>"

text \<open>The same services with a backend that answers every search with the given rows.\<close>

definition search_env_with_rows :: "pydict list \<Rightarrow> search_env" where
  "search_env_with_rows results =
     example_search_env\<lparr>client_search := (\<lambda>request. \<lparr>rows = results, answers = None\<rparr>)\<rparr>"

text \<open>The name of each stage of a pipeline: the first key of the stage's dictionary.\<close>

definition stage_names :: "pyval list \<Rightarrow> string list" where
  "stage_names pipeline =
     map (\<lambda>stage. case stage of PDict ((name, _) # _) \<Rightarrow> name | _ \<Rightarrow> []) pipeline"

text \<open>
  What a vector-search request for query vector \<open>v\<close>, result count \<open>k\<close>, integer
  parameters \<open>kind_params\<close> and pre-filter \<open>pre_filter\<close> looks like: two stages, a
  \<open>$search\<close> whose \<open>cosmosSearch\<close> parameters carry the vector, the embedding path,
  \<open>k\<close> and the kind's parameters, followed by the projection of score and document.
  The \<open>filter\<close> entry is the pre-filter when that is a dictionary with at least one
  entry, and is absent otherwise.
\<close>

definition two_stage_request ::
  "vcore_store \<Rightarrow> real list \<Rightarrow> int \<Rightarrow> (string \<times> int) list \<Rightarrow> pydict option \<Rightarrow> pyval list
     \<Rightarrow> bool" where
  "two_stage_request self v k kind_params pre_filter pipeline =
     (length pipeline = 2
      \<and> stage_names pipeline = [''$search'', ''$project'']
      \<and> pipeline ! 1 = project_stage
      \<and> search_param pipeline ''vector'' = Some (PList (map PFloat v))
      \<and> search_param pipeline ''path'' = Some (PStr (embedding_key self))
      \<and> search_param pipeline ''k'' = Some (PInt k)
      \<and> list_all (\<lambda>(name, x). search_param pipeline name = Some (PInt x)) kind_params
      \<and> search_param pipeline ''filter''
          = (if filter_given pre_filter then map_option PDict pre_filter else None))"

definition example_store :: vcore_store where
  "example_store =
     \<lparr>index_name = ''vectorSearchIndex'', text_key = ''textContent'',
      embedding_key = ''vectorContent''\<rparr>"

section \<open>Properties of the query builders\<close>

lemma with_filter_keeps:
  "name \<noteq> ''filter'' \<Longrightarrow> map_of (with_filter params pre_filter) name = map_of params name"
  by (simp add: with_filter_def dict_set_def update_conv' split: option.splits)

text \<open>
  Claim C7. A DISKANN search request built without an explicit \<open>l_search\<close> carries
  \<open>lSearch = 40\<close>, whatever the query vector, \<open>k\<close>, the pre-filter and the oversampling
  are: both for the builder \<open>_get_pipeline_vector_diskann\<close> called without the argument
  and for \<open>_similarity_search_with_score\<close> called with kind DISKANN and without it. The
  builders are total, so the request is produced rather than an error.
\<close>

theorem diskann_default_l_search:
  "search_param (get_pipeline_vector_diskann self v k None pre_filter oversampling) ''lSearch''
     = Some (PInt 40)
   \<and> search_param (search_pipeline self v k (Some VECTOR_DISKANN) pre_filter ef_search None)
        ''lSearch'' = Some (PInt 40)"
proof -
  have ne: "''lSearch'' \<noteq> ''filter''"
    by simp
  have builder: "search_param (get_pipeline_vector_diskann self v k' None pre_filter os)
      ''lSearch'' = Some (PInt 40)" for k' os
    by (simp add: search_param_def cosmos_search_params_def get_pipeline_vector_diskann_def
        Let_def with_filter_keeps [OF ne] arg_or_def)
  have kind: "VECTOR_DISKANN \<noteq> VECTOR_IVF" "VECTOR_DISKANN \<noteq> VECTOR_HNSW"
    by (simp_all add: VECTOR_DISKANN_def VECTOR_IVF_def VECTOR_HNSW_def)
  have "search_pipeline self v k (Some VECTOR_DISKANN) pre_filter ef_search None
      = get_pipeline_vector_diskann self v (Some (arg_or 4 k)) (Some 40) pre_filter None"
    by (simp add: search_pipeline_def Let_def kind arg_or_def)
  moreover have "search_param
      (get_pipeline_vector_diskann self v (Some (arg_or 4 k)) (Some 40) pre_filter None)
      ''lSearch'' = Some (PInt 40)"
    by (simp add: search_param_def cosmos_search_params_def get_pipeline_vector_diskann_def
        Let_def with_filter_keeps [OF ne] arg_or_def)
  ultimately show ?thesis
    using builder by simp
qed

lemma with_filter_entry:
  "map_of params ''filter'' = None \<Longrightarrow>
   map_of (with_filter params pre_filter) ''filter''
     = (if filter_given pre_filter then map_option PDict pre_filter else None)"
  by (simp add: with_filter_def filter_given_def dict_set_def update_conv'
      split: option.splits)

lemma ivf_two_stage:
  "two_stage_request self v (arg_or 4 k) [] pre_filter
     (get_pipeline_vector_ivf self v k pre_filter oversampling)"
  by (simp add: two_stage_request_def get_pipeline_vector_ivf_def Let_def stage_names_def
      search_param_def cosmos_search_params_def with_filter_keeps with_filter_entry
      project_stage_def)

lemma hnsw_two_stage:
  "two_stage_request self v (arg_or 4 k) [(''efSearch'', arg_or 40 ef_search)] pre_filter
     (get_pipeline_vector_hnsw self v k ef_search pre_filter oversampling)"
  by (simp add: two_stage_request_def get_pipeline_vector_hnsw_def Let_def stage_names_def
      search_param_def cosmos_search_params_def with_filter_keeps with_filter_entry
      project_stage_def)

lemma diskann_two_stage:
  "two_stage_request self v (arg_or 4 k) [(''lSearch'', arg_or 40 l_search)] pre_filter
     (get_pipeline_vector_diskann self v k l_search pre_filter oversampling)"
  by (simp add: two_stage_request_def get_pipeline_vector_diskann_def Let_def stage_names_def
      search_param_def cosmos_search_params_def with_filter_keeps with_filter_entry
      project_stage_def)

text \<open>
  Claim C8, as stated, at a concrete input. The claim asks for a \<open>filter\<close> entry
  whenever a pre-filter was supplied. A pre-filter that is the empty dictionary is
  supplied, and the HNSW builder (like the other two) leaves the entry out.
\<close>

theorem empty_pre_filter_gives_no_filter_entry:
  "search_param
     (get_pipeline_vector_hnsw example_store [1, 0] (Some 4) (Some 40) (Some []) None)
     ''filter'' = None"
  by (simp add: search_param_def cosmos_search_params_def get_pipeline_vector_hnsw_def
      Let_def with_filter_def)

text \<open>
  Claim C8, amended. For each index kind, every query vector, \<open>k\<close> and optional
  pre-filter, the builder returns exactly two stages. Stage 1 is a \<open>$search\<close> whose
  parameters carry the vector, the embedding path, \<open>k\<close> (4 when left out), the kind's
  parameter (\<open>efSearch\<close> for HNSW, \<open>lSearch\<close> for DISKANN, each 40 when left out) and
  a \<open>filter\<close> entry if and only if the pre-filter is a non-empty dictionary, in which
  case the entry is that dictionary. Stage 2 projects the similarity score and the full
  matched document.
\<close>

theorem builders_two_stage_pipeline:
  "two_stage_request self v (arg_or 4 k) [] pre_filter
     (get_pipeline_vector_ivf self v k pre_filter oversampling)
   \<and> two_stage_request self v (arg_or 4 k) [(''efSearch'', arg_or 40 ef_search)] pre_filter
     (get_pipeline_vector_hnsw self v k ef_search pre_filter oversampling)
   \<and> two_stage_request self v (arg_or 4 k) [(''lSearch'', arg_or 40 l_search)] pre_filter
     (get_pipeline_vector_diskann self v k l_search pre_filter oversampling)"
  using ivf_two_stage hnsw_two_stage diskann_two_stage by blast

theorem builders_two_stage_pipeline_witness:
  "two_stage_request example_store [1, 0] 4 [(''lSearch'', 40)]
     (Some [(''category'', PStr ''a'')])
     (get_pipeline_vector_diskann example_store [1, 0] None None
        (Some [(''category'', PStr ''a'')]) None)
   \<and> search_param
        (get_pipeline_vector_diskann example_store [1, 0] None None
           (Some [(''category'', PStr ''a'')]) None) ''filter''
       = Some (PDict [(''category'', PStr ''a'')])"
  using builders_two_stage_pipeline [of example_store "[1, 0]" None
      "Some [(''category'', PStr ''a'')]" None None None]
  by (simp add: arg_or_def two_stage_request_def filter_given_def)

section \<open>Properties of the Mongo vCore similarity search\<close>

lemma and_then_eq_Inr:
  "and_then m f = Inr y \<longleftrightarrow> (\<exists>x. m = Inr x \<and> f x = Inr y)"
  by (cases m) simp_all

lemma row_below_skipped:
  "row_score_below t res \<Longrightarrow> row_to_doc self t we res = Inr None"
  by (auto simp: row_score_below_def row_to_doc_def dict_pop_def split: option.splits)

lemma collect_docs_drops_below:
  "collect_docs self t we (filter (\<lambda>r. \<not> row_score_below t r) cursor) docs
     = collect_docs self t we cursor docs"
  by (induction cursor arbitrary: docs) (simp_all add: row_below_skipped)

lemma row_kept_not_below:
  assumes "row_to_doc self t we res = Inr (Some (doc, score))"
  shows "py_lt score t = Inr False"
  using assms
  by (auto simp: row_to_doc_def and_then_eq_Inr split: if_splits)

lemma collect_docs_scores:
  "collect_docs self t we cursor docs = Inr out \<Longrightarrow>
   list_all (\<lambda>(d, score). py_lt score t = Inr False) docs \<Longrightarrow>
   list_all (\<lambda>(d, score). py_lt score t = Inr False) out"
proof (induction cursor arbitrary: docs)
  case Nil
  then show ?case by simp
next
  case (Cons res cursor)
  from Cons.prems(1) obtain r where r: "row_to_doc self t we res = Inr r"
    and rest: "(case r of None \<Rightarrow> collect_docs self t we cursor docs
        | Some d \<Rightarrow> collect_docs self t we cursor (docs @ [d])) = Inr out"
    by (auto simp: and_then_eq_Inr)
  show ?case
  proof (cases r)
    case None
    with rest Cons.IH Cons.prems(2) show ?thesis by simp
  next
    case (Some d)
    obtain doc score where d: "d = (doc, score)" by (cases d)
    with r Some have "py_lt score t = Inr False"
      using row_kept_not_below by blast
    with Cons.prems(2) d have "list_all (\<lambda>(d, score). py_lt score t = Inr False) (docs @ [d])"
      by simp
    with rest Some Cons.IH show ?thesis by simp
  qed
qed

lemma drop_rows_below_fields [simp]:
  "sha256_hexdigest (drop_rows_below t env) = sha256_hexdigest env"
  "embed_query (drop_rows_below t env) = embed_query env"
  "embed_documents (drop_rows_below t env) = embed_documents env"
  "loads (drop_rows_below t env) = loads env"
  "dumps (drop_rows_below t env) = dumps env"
  "json_loads (drop_rows_below t env) = json_loads env"
  "new_Generation (drop_rows_below t env) = new_Generation env"
  "aggregate (drop_rows_below t env) coll pipeline
     = filter (\<lambda>res. \<not> row_score_below t res) (aggregate env coll pipeline)"
  by (simp_all add: drop_rows_below_def)

lemma by_vector_drop:
  "similarity_search_with_score_by_vector (drop_rows_below (arg_or 0 st) env) self coll v k kind pf
       ef st ls we os
     = similarity_search_with_score_by_vector env self coll v k kind pf ef st ls we os"
  by (simp add: similarity_search_with_score_by_vector_def Let_def collect_docs_drops_below)

lemma by_vector_scores:
  "scores_not_below (arg_or 0 st)
     (similarity_search_with_score_by_vector env self coll v k kind pf ef st ls we os)"
  unfolding scores_not_below_def similarity_search_with_score_by_vector_def Let_def
  using collect_docs_scores [of self "arg_or 0 st" _ _ "[]"]
  by (auto split: sum.splits)

lemma with_score_drop:
  "similarity_search_with_score (drop_rows_below (arg_or 0 st) env) self coll q k kind pf
       ef st ls we os
     = similarity_search_with_score env self coll q k kind pf ef st ls we os"
  using by_vector_drop [of "Some (arg_or 0 st)"]
  by (simp add: similarity_search_with_score_def Let_def arg_or_def)

lemma with_score_scores:
  "scores_not_below (arg_or 0 st)
     (similarity_search_with_score env self coll q k kind pf ef st ls we os)"
  using by_vector_scores [of "Some (arg_or 0 st)"]
  by (simp add: similarity_search_with_score_def Let_def arg_or_def)

lemma search_drop:
  "similarity_search (drop_rows_below (arg_or 0 st) env) self coll q k kind pf
       ef st ls we os
     = similarity_search env self coll q k kind pf ef st ls we os"
  using with_score_drop [of "Some (arg_or 0 st)"]
  by (simp add: similarity_search_def arg_or_def)

lemma get_llm_cache_drop [simp]:
  "get_llm_cache (drop_rows_below t env) c sig = get_llm_cache env c sig"
  by (simp add: get_llm_cache_def cache_index_name_def hash_str_def)

lemma Generation_from_drop [simp]:
  "Generation_from (drop_rows_below t env) = Generation_from env"
  by (rule ext) (simp add: Generation_from_def split: pyval.splits)

lemma load_generations_drop [simp]:
  "load_generations_from_json (drop_rows_below t env) = load_generations_from_json env"
  by (rule ext) (simp add: load_generations_from_json_def)

lemma decode_document_drop [simp]:
  "decode_document (drop_rows_below t env) = decode_document env"
  by (intro ext) (simp add: decode_document_def split: sum.splits)

lemma decode_results_drop [simp]:
  "decode_results (drop_rows_below t env) results gens = decode_results env results gens"
proof (induction results arbitrary: gens)
  case Nil
  show ?case by simp
next
  case (Cons d ds)
  have "decode_results (drop_rows_below t env) ds = decode_results env ds"
    by (rule ext) (rule Cons.IH)
  then show ?case by simp
qed

lemma cache_search_drop:
  "cache_score_threshold c = None \<Longrightarrow>
   cache_search (drop_rows_below 0 env) c store prompt = cache_search env c store prompt"
  using search_drop [of "Some 0"]
  by (simp add: cache_search_def threshold_or_zero_def arg_or_def)

lemma lookup_drop:
  "lookup (drop_rows_below 0 env) (c\<lparr>cache_score_threshold := None\<rparr>) prompt sig
     = lookup env (c\<lparr>cache_score_threshold := None\<rparr>) prompt sig"
proof -
  obtain store c' where g: "get_llm_cache env (c\<lparr>cache_score_threshold := None\<rparr>) sig = (store, c')"
    by (cases "get_llm_cache env (c\<lparr>cache_score_threshold := None\<rparr>) sig")
  then have "cache_score_threshold c' = None"
    by (auto simp: get_llm_cache_def Let_def split: option.splits if_splits)
  with g show ?thesis
    by (simp add: lookup_def cache_search_drop)
qed


text \<open>
  Claim C10. When a Mongo vCore similarity search is called without a score threshold,
  the threshold is 0.0 and every backend row whose score is below 0.0 is dropped without
  a trace: the result (a list or an exception) is the one the search gives on a backend
  that never returned those rows, and no score of a returned list is below 0.0. This
  holds for \<open>_similarity_search_with_score\<close>, \<open>similarity_search_with_score\<close> and
  \<open>similarity_search\<close>, and for \<open>lookup\<close> of a semantic cache configured with no
  score threshold, which passes \<open>None or 0.0\<close>.
\<close>

theorem negative_scores_discarded:
  "similarity_search_with_score_by_vector (drop_rows_below 0 env) self coll v k kind pf ef None
       ls we os
     = similarity_search_with_score_by_vector env self coll v k kind pf ef None ls we os
   \<and> scores_not_below 0
       (similarity_search_with_score_by_vector env self coll v k kind pf ef None ls we os)
   \<and> similarity_search_with_score (drop_rows_below 0 env) self coll q k kind pf ef None
       ls we os
     = similarity_search_with_score env self coll q k kind pf ef None ls we os
   \<and> scores_not_below 0
       (similarity_search_with_score env self coll q k kind pf ef None ls we os)
   \<and> similarity_search (drop_rows_below 0 env) self coll q k kind pf ef None ls we os
     = similarity_search env self coll q k kind pf ef None ls we os
   \<and> lookup (drop_rows_below 0 env) (c\<lparr>cache_score_threshold := None\<rparr>) prompt sig
     = lookup env (c\<lparr>cache_score_threshold := None\<rparr>) prompt sig"
  using by_vector_drop [of None env] by_vector_scores [of None env]
    with_score_drop [of None env] with_score_scores [of None env]
    search_drop [of None env] lookup_drop [of env c]
  by (simp add: arg_or_def)

lemma empty_cache_threshold: "empty_cache\<lparr>cache_score_threshold := None\<rparr> = empty_cache"
  by (simp add: empty_cache_def)

theorem negative_scores_discarded_witness:
  "lookup (env_with_rows mixed_rows) empty_cache ''first prompt'' ''model-a''
     = lookup (drop_rows_below 0 (env_with_rows mixed_rows)) empty_cache ''first prompt''
         ''model-a''
   \<and> fst (lookup (env_with_rows mixed_rows) empty_cache ''first prompt'' ''model-a'')
     = Inr (Some [PInt 1])
   \<and> scores_not_below 0
       (similarity_search_with_score_by_vector (env_with_rows mixed_rows) example_store []
          [1, 0] None None None None None None None None)"
proof -
  have "fst (lookup (env_with_rows mixed_rows) empty_cache ''first prompt'' ''model-a'')
      = Inr (Some [PInt 1])"
    by code_simp
  then show ?thesis
    using negative_scores_discarded [where env = "env_with_rows mixed_rows"
        and self = example_store and coll = "[]" and v = "[1, 0]" and k = None
        and kind = None and pf = None and ef = None and ls = None and we = None
        and os = None and c = empty_cache and prompt = "''first prompt''"
        and sig = "''model-a''"]
    by (simp add: empty_cache_threshold)
qed


section \<open>Properties of the semantic cache\<close>

lemma legacy_json_error:
  "json_loads env s = Inl JSONDecodeError \<Longrightarrow>
   load_generations_from_json env (PStr s) = Inl ValueError"
  by (simp add: load_generations_from_json_def decode_with_def)

lemma decode_document_payload:
  assumes "map_of (metadata doc) ''return_val'' = Some (PStr s)"
  shows "decode_document env doc gens =
     (case and_then (loads env s) (list_extend gens) of
        Inr generations \<Rightarrow> Inr generations
      | Inl e \<Rightarrow>
          and_then (load_generations_from_json env (PStr s)) (\<lambda>legacy. Inr (gens @ legacy)))"
  using assms
  by (simp add: decode_document_def dict_item_def decode_with_def split: sum.splits)

lemma and_then_Inr: "and_then m Inr = m"
  by (cases m) simp_all

lemma decode_results_single:
  "decode_results env [doc] gens = decode_document env doc gens"
proof -
  have "decode_results env [] = Inr"
    by (rule ext) simp
  then show ?thesis
    by (simp add: and_then_Inr)
qed

text \<open>
  Claim C2, as stated, at a concrete input. The backend returns one cache entry whose
  payload is \<open>not json\<close>. The structured codec fails on it, the legacy decoder fails
  on it, and \<open>lookup\<close> raises \<open>ValueError\<close> to its caller instead of reporting a miss.
\<close>

theorem lookup_raises_on_unreadable_payload:
  "fst (lookup (env_with_rows unreadable_rows) empty_cache ''first prompt'' ''model-a'')
     = Inl ValueError"
  by code_simp

text \<open>
  Claim C2, amended. For a cache entry found by the search whose metadata holds a
  payload string under \<open>return_val\<close>, \<open>lookup\<close> first tries the structured codec and
  returns what it read (\<open>None\<close> for an empty list). If the structured codec raises
  anything, \<open>lookup\<close> falls back to the legacy plain-JSON decoder and returns what that
  read. If the legacy decoder raises as well, its exception reaches the caller of
  \<open>lookup\<close>; for a payload that is not JSON this is a \<open>ValueError\<close>.
\<close>

theorem lookup_decode_fallback:
  assumes "found env c prompt sig = Inr [doc]"
    and "map_of (metadata doc) ''return_val'' = Some (PStr s)"
  shows "fst (lookup env c prompt sig) =
     (case and_then (loads env s) (list_extend []) of
        Inr generations \<Rightarrow> Inr (some_or_none generations)
      | Inl e \<Rightarrow>
          (case load_generations_from_json env (PStr s) of
             Inr generations \<Rightarrow> Inr (some_or_none generations)
           | Inl e' \<Rightarrow> Inl e'))
   \<and> (json_loads env s = Inl JSONDecodeError \<longrightarrow>
        load_generations_from_json env (PStr s) = Inl ValueError)"
proof -
  obtain store c' where g: "get_llm_cache env c sig = (store, c')"
    by (cases "get_llm_cache env c sig")
  with assms(1) have search: "cache_search env c' store prompt = Inr [doc]"
    by (simp add: found_def)
  have "fst (lookup env c prompt sig)
      = and_then (decode_document env doc []) (\<lambda>generations. Inr (some_or_none generations))"
    using g search
    by (simp add: lookup_def some_or_none_def decode_results_single del: decode_results.simps)
  also have "\<dots> = (case and_then (loads env s) (list_extend []) of
        Inr generations \<Rightarrow> Inr (some_or_none generations)
      | Inl e \<Rightarrow>
          (case load_generations_from_json env (PStr s) of
             Inr generations \<Rightarrow> Inr (some_or_none generations)
           | Inl e' \<Rightarrow> Inl e'))"
    by (simp add: decode_document_payload [OF assms(2)] split: sum.splits)
  finally show ?thesis
    using legacy_json_error by blast
qed

theorem lookup_decode_fallback_witness:
  "found (env_with_rows unreadable_rows) empty_cache ''first prompt'' ''model-a''
     = Inr [first_entry ''not json'']
   \<and> fst (lookup (env_with_rows unreadable_rows) empty_cache ''first prompt'' ''model-a'')
     = Inl ValueError"
proof -
  have f: "found (env_with_rows unreadable_rows) empty_cache ''first prompt'' ''model-a''
      = Inr [first_entry ''not json'']"
    by code_simp
  have m: "map_of (metadata (first_entry ''not json'')) ''return_val''
      = Some (PStr ''not json'')"
    by (simp add: first_entry_def)
  have l: "loads (env_with_rows unreadable_rows) ''not json'' = Inl JSONDecodeError"
    "json_loads (env_with_rows unreadable_rows) ''not json'' = Inl JSONDecodeError"
    by (simp_all add: env_with_rows_def example_env_def example_decoder_def)
  show ?thesis
    using lookup_decode_fallback [OF f m] f l by simp
qed

text \<open>
  Claim C4, as stated, at a concrete input. After one \<open>update\<close> under each of two
  signatures the collection holds an entry of each. \<open>clear\<close> for the first signature
  leaves no entry at all: the entry of the second signature is deleted with it.
\<close>

theorem clear_deletes_other_signature:
  "entry_signatures two_entries = [PStr ''model-a'', PStr ''model-b'']
   \<and> entry_signatures
        (snd (clear example_env two_entries [(''llm_string'', PStr ''model-a'')])) = []"
  by code_simp

lemma delete_missing: "map_of dbs name = None \<Longrightarrow> AList.delete name dbs = dbs"
  by (simp add: map_of_eq_None_iff)

text \<open>
  Claim C4, amended. For a model signature whose index name is in the registry,
  \<open>clear\<close> raises nothing and deletes every document of the cache's collection,
  whatever signature it was stored under; the registry and the indexes stay as they
  were. The NoSQL cache deletes its whole database, with every entry in it, and raises
  nothing; when the account has no database of that name (an earlier \<open>clear\<close> deleted
  it and nothing created it again), it raises the backend's
  \<open>CosmosResourceNotFoundError\<close> and changes nothing. Its registry stays as it was
  in both cases.
\<close>

theorem clear_resolved_deletes_everything:
  "(map_of (cache_dict c) (cache_index_name env sig) \<noteq> None \<longrightarrow>
      clear env c [(''llm_string'', PStr sig)]
        = (None, c\<lparr>collection := (collection c)\<lparr>documents := []\<rparr>\<rparr>))
   \<and> (map_of (ns_cache_dict n) (cache_name env sig) \<noteq> None \<longrightarrow>
      nosql_clear env n [(''llm_string'', PStr sig)]
        = (if map_of (ns_databases n) (ns_database_name n) = None
           then Some CosmosResourceNotFoundError else None,
           n\<lparr>ns_databases := AList.delete (ns_database_name n) (ns_databases n)\<rparr>))"
  by (auto simp add: clear_def nosql_clear_def dict_item_def delete_many_all_def
      delete_database_def Let_def delete_missing)

theorem clear_resolved_deletes_everything_witness:
  "clear example_env two_entries [(''llm_string'', PStr ''model-a'')]
     = (None, two_entries\<lparr>collection := (collection two_entries)\<lparr>documents := []\<rparr>\<rparr>)
   \<and> nosql_clear example_env nosql_two_entries [(''llm_string'', PStr ''model-a'')]
     = (None, nosql_two_entries\<lparr>ns_databases := []\<rparr>)
   \<and> nosql_clear example_env (nosql_two_entries\<lparr>ns_databases := []\<rparr>)
        [(''llm_string'', PStr ''model-a'')]
     = (Some CosmosResourceNotFoundError, nosql_two_entries\<lparr>ns_databases := []\<rparr>)"
proof -
  have a: "map_of (cache_dict two_entries) (cache_index_name example_env ''model-a'') \<noteq> None"
    by code_simp
  have b: "map_of (ns_cache_dict nosql_two_entries) (cache_name example_env ''model-a'') \<noteq> None"
    by (simp add: nosql_two_entries_def cache_name_def hash_str_def example_env_def)
  have d: "map_of (ns_databases nosql_two_entries) (ns_database_name nosql_two_entries) \<noteq> None"
    by (simp add: nosql_two_entries_def)
  have e: "AList.delete (ns_database_name nosql_two_entries) (ns_databases nosql_two_entries) = []"
    by (simp add: nosql_two_entries_def)
  show ?thesis
    using clear_resolved_deletes_everything [of two_entries example_env "''model-a''"
        nosql_two_entries]
      clear_resolved_deletes_everything [of two_entries example_env "''model-a''"
        "nosql_two_entries\<lparr>ns_databases := []\<rparr>"] a b d e
    by simp
qed

text \<open>
  Claim C9. For a model signature whose index name is not in the registry (the
  signature was never looked up or updated through this cache object), \<open>clear\<close>
  raises nothing and leaves the cache and its backend exactly as they were; the same
  holds for the NoSQL cache.
\<close>

theorem clear_unresolved_is_noop:
  "(map_of (cache_dict c) (cache_index_name env sig) = None \<longrightarrow>
      clear env c [(''llm_string'', PStr sig)] = (None, c))
   \<and> (map_of (ns_cache_dict n) (cache_name env sig) = None \<longrightarrow>
      nosql_clear env n [(''llm_string'', PStr sig)] = (None, n))"
  by (simp add: clear_def nosql_clear_def dict_item_def)

theorem clear_unresolved_is_noop_witness:
  "clear example_env
       (snd (update example_env empty_cache ''first prompt'' ''model-a'' [example_generation]))
       [(''llm_string'', PStr ''model-b'')]
     = (None,
        snd (update example_env empty_cache ''first prompt'' ''model-a'' [example_generation]))
   \<and> nosql_clear example_env nosql_two_entries [(''llm_string'', PStr ''model-b'')]
     = (None, nosql_two_entries)"
proof -
  have a: "map_of
      (cache_dict
         (snd (update example_env empty_cache ''first prompt'' ''model-a''
                 [example_generation])))
      (cache_index_name example_env ''model-b'') = None"
    by code_simp
  have b: "map_of (ns_cache_dict nosql_two_entries) (cache_name example_env ''model-b'') = None"
    by (simp add: nosql_two_entries_def cache_name_def hash_str_def example_env_def
        example_digest_def)
  show ?thesis
    using clear_unresolved_is_noop [of
        "snd (update example_env empty_cache ''first prompt'' ''model-a'' [example_generation])"
        example_env "''model-b''" nosql_two_entries] a b
    by simp
qed

section \<open>Properties of the Azure AI Search ingestion\<close>

lemma list_all_butlast: "list_all P xs \<Longrightarrow> list_all P (butlast xs)"
  by (induction xs) auto

lemma metadata_at_error: "metadata_at metadatas i = Inl e \<Longrightarrow> e = IndexError"
  by (auto simp: metadata_at_def list_item_def split: if_splits)

lemma loop_post_error:
  "e = IndexError \<Longrightarrow> list_all batch_ok calls \<Longrightarrow> list_all call_ok calls \<Longrightarrow>
   loop_post n (Inl e, calls)"
  by (simp add: loop_post_def list_all_butlast)

lemma embeddings_loop_post:
  assumes "index_errors_only key_of"
  shows "list_all batch_ok calls \<Longrightarrow> list_all call_ok calls \<Longrightarrow>
     length batch < MAX_UPLOAD_BATCH_SIZE \<Longrightarrow>
     length (concat (map fst calls)) + length batch = length ids \<Longrightarrow>
     loop_post (length ids + length pairs)
       (embeddings_loop env self key_of metadatas i pairs ids batch calls)"
proof (induction pairs arbitrary: i ids batch calls)
  case Nil
  then show ?case
    by (simp add: loop_post_def list_all_butlast)
next
  case (Cons p pairs)
  obtain tx emb where p: "p = (tx, emb)"
    by (cases p)
  show ?case
  proof (cases "key_of i")
    case (Inl e)
    with assms have "e = IndexError"
      by (simp add: index_errors_only_def)
    with Inl p Cons.prems show ?thesis
      by (simp add: loop_post_error)
  next
    case key: (Inr key)
    show ?thesis
    proof (cases "metadata_at metadatas i")
      case (Inl e)
      then have "e = IndexError"
        by (rule metadata_at_error)
      with Inl key p Cons.prems show ?thesis
        by (simp add: loop_post_error)
    next
      case meta: (Inr meta)
      define batch' where "batch' = batch @ [upload_doc env self key tx emb meta]"
      define ids' where "ids' = ids @ [key]"
      have len: "length batch' = Suc (length batch)"
        by (simp add: batch'_def)
      show ?thesis
      proof (cases "length batch' = MAX_UPLOAD_BATCH_SIZE")
        case full: True
        define response where "response = upload_documents env (map fst calls) batch'"
        define calls' where "calls' = calls @ [(batch', response)]"
        have up: "do_upload env calls batch' = (response, calls')"
          by (simp add: do_upload_def response_def calls'_def Let_def)
        have "batch_ok (batch', response)"
          using full len by (auto simp: batch_ok_def)
        then have bok: "list_all batch_ok calls'"
          using Cons.prems(1) by (simp add: calls'_def)
        show ?thesis
        proof (cases "list_all succeeded response")
          case True
          have "call_ok (batch', response)"
            using True by (simp add: call_ok_def)
          then have cok: "list_all call_ok calls'"
            using Cons.prems(2) by (simp add: calls'_def)
          have cnt: "length (concat (map fst calls')) + length ([]::pydict list) = length ids'"
            using Cons.prems(4) len by (simp add: calls'_def ids'_def batch'_def)
          have "loop_post (length ids' + length pairs)
              (embeddings_loop env self key_of metadatas (i + 1) pairs ids' [] calls')"
            by (rule Cons.IH [OF bok cok _ cnt]) (simp add: MAX_UPLOAD_BATCH_SIZE_def)
          then show ?thesis
            using key meta p full up True
            by (simp add: batch'_def ids'_def Let_def)
        next
          case False
          have "loop_post (length ids + length (p # pairs)) (Inl (LangChainException response), calls')"
            using bok Cons.prems(2) False
            by (simp add: loop_post_def calls'_def)
          then show ?thesis
            using key meta p full up False
            by (simp add: batch'_def ids'_def Let_def)
        qed
      next
        case notfull: False
        have lt: "length batch' < MAX_UPLOAD_BATCH_SIZE"
          using Cons.prems(3) notfull len by simp
        have cnt: "length (concat (map fst calls)) + length batch' = length ids'"
          using Cons.prems(4) len by (simp add: ids'_def)
        have "loop_post (length ids' + length pairs)
            (embeddings_loop env self key_of metadatas (i + 1) pairs ids' batch' calls)"
          by (rule Cons.IH [OF Cons.prems(1) Cons.prems(2) lt cnt])
        then show ?thesis
          using key meta p notfull
          by (simp add: batch'_def ids'_def Let_def)
      qed
    qed
  qed
qed




lemma embeddings_upload_report:
  assumes "index_errors_only key_of"
  shows "upload_report (length pairs) (embeddings_upload env self key_of metadatas pairs)"
proof -
  have post: "loop_post (length ([]::string list) + length pairs)
      (embeddings_loop env self key_of metadatas 0 pairs [] [] [])"
    by (rule embeddings_loop_post [OF assms]) (simp_all add: MAX_UPLOAD_BATCH_SIZE_def)
  obtain outcome calls where r:
    "embeddings_loop env self key_of metadatas 0 pairs [] [] [] = (outcome, calls)"
    by (cases "embeddings_loop env self key_of metadatas 0 pairs [] [] []")
  show ?thesis
  proof (cases outcome)
    case (Inl e)
    with post r show ?thesis
      by (simp add: embeddings_upload_def upload_report_def loop_post_def)
  next
    case (Inr st)
    obtain ids batch where st: "st = (ids, batch)"
      by (cases st)
    from post r Inr st have inv: "list_all batch_ok calls" "list_all call_ok calls"
      "length batch < MAX_UPLOAD_BATCH_SIZE"
      "length (concat (map fst calls)) + length batch = length pairs"
      "length ids = length pairs"
      by (simp_all add: loop_post_def)
    show ?thesis
    proof (cases "batch = []")
      case True
      with inv r Inr st show ?thesis
        by (simp add: embeddings_upload_def upload_report_def list_all_butlast)
    next
      case False
      define response where "response = upload_documents env (map fst calls) batch"
      have up: "do_upload env calls batch = (response, calls @ [(batch, response)])"
        by (simp add: do_upload_def response_def Let_def)
      have b: "batch_ok (batch, response)"
        using False inv(3) by (simp add: batch_ok_def)
      show ?thesis
      proof (cases "list_all succeeded response")
        case True
        then have "call_ok (batch, response)"
          by (simp add: call_ok_def)
        with inv r Inr st False up True b show ?thesis
          by (simp add: embeddings_upload_def upload_report_def)
      next
        case nok: False
        with inv r Inr st False up b show ?thesis
          by (simp add: embeddings_upload_def upload_report_def)
      qed
    qed
  qed
qed


lemma chunks_Nil [simp]: "chunks n [] = []"
  by (simp add: chunks.simps)















lemma concat_chunks: "0 < n \<Longrightarrow> concat (chunks n xs) = xs"
proof (induction n xs rule: chunks.induct)
  case (1 n xs)
  then show ?case
    by (subst chunks.simps) simp
qed

lemma chunks_sizes:
  "list_all (\<lambda>b. b \<noteq> [] \<and> length b \<le> n) (chunks n xs)
   \<and> list_all (\<lambda>b. length b = n) (butlast (chunks n xs))"
proof (induction n xs rule: chunks.induct)
  case (1 n xs)
  show ?case
  proof (cases "n = 0 \<or> xs = []")
    case True
    then show ?thesis
      by (subst chunks.simps, subst (2) chunks.simps) simp
  next
    case False
    with 1 have ih: "list_all (\<lambda>b. b \<noteq> [] \<and> length b \<le> n) (chunks n (drop n xs))"
      "list_all (\<lambda>b. length b = n) (butlast (chunks n (drop n xs)))"
      by simp_all
    have eq: "chunks n xs = take n xs # chunks n (drop n xs)"
      using False by (subst chunks.simps) simp
    have "chunks n (drop n xs) \<noteq> [] \<Longrightarrow> length (take n xs) = n"
    proof -
      assume "chunks n (drop n xs) \<noteq> []"
      then have "drop n xs \<noteq> []"
        by (auto simp: chunks.simps)
      then show ?thesis
        by simp
    qed
    with False ih show ?thesis
      by (simp add: eq)
  qed
qed

lemma failed_first_batch:
  assumes "docs \<noteq> []"
    and "\<not> list_all succeeded (upload_documents env [] (take MAX_UPLOAD_BATCH_SIZE docs))"
  shows "batched_upload env ids docs
     = (Inl (LangChainException (upload_documents env [] (take MAX_UPLOAD_BATCH_SIZE docs))),
        [(take MAX_UPLOAD_BATCH_SIZE docs,
          upload_documents env [] (take MAX_UPLOAD_BATCH_SIZE docs))])"
proof -
  have "chunks MAX_UPLOAD_BATCH_SIZE docs
      = take MAX_UPLOAD_BATCH_SIZE docs
          # chunks MAX_UPLOAD_BATCH_SIZE (drop MAX_UPLOAD_BATCH_SIZE docs)"
    using assms(1) by (subst chunks.simps) (simp add: MAX_UPLOAD_BATCH_SIZE_def)
  with assms(2) show ?thesis
    by (simp add: batched_upload_def Let_def)
qed


lemma failed_upload_ends_run:
  assumes "index_errors_only key_of"
    and "embeddings_upload env self key_of metadatas pairs = (outcome, calls)"
    and "\<not> list_all call_ok calls"
  shows "outcome = Inl (LangChainException (snd (last calls)))
     \<and> list_all call_ok (butlast calls)"
proof -
  have "upload_report (length pairs) (outcome, calls)"
    using embeddings_upload_report [OF assms(1), of pairs env self metadatas] assms(2)
    by simp
  with assms(3) show ?thesis
    by (auto simp: upload_report_def split: sum.splits py_error.splits)
qed


text \<open>
  Claim C1 at a concrete input: one text with the explicit key \<open>a\<close>, no metadata,
  a backend that accepts the upload. \<open>add_embeddings\<close> uploads the document under
  the id \<open>a\<close> and returns \<open>a\<close>; \<open>aadd_embeddings\<close> uploads it under the
  Base64 text \<open>YQ==\<close> and returns that.
\<close>

theorem explicit_key_sync_async_differ:
  "fst (add_embeddings example_search_env example_index [(''t'', [1, 0])] None (Some [''a'']))
     = Inr [''a'']
   \<and> uploaded_ids
        (snd (add_embeddings example_search_env example_index [(''t'', [1, 0])] None
                (Some [''a''])))
     = [Some (PStr ''a'')]
   \<and> fst (aadd_embeddings example_search_env example_index [(''t'', [1, 0])] None
             (Some [''a'']))
     = Inr [''YQ=='']
   \<and> uploaded_ids
        (snd (aadd_embeddings example_search_env example_index [(''t'', [1, 0])] None
                (Some [''a''])))
     = [Some (PStr ''YQ=='')]"
  by code_simp

section \<open>Properties of the Azure AI Search result handling\<close>

text \<open>
  Claim C3 at the failing input: a fetch that returns no rows. The synchronous
  reordering returns the empty list, for every query embedding, \<open>k\<close> and
  \<open>lambda_mult\<close>; the asynchronous one raises \<open>ValueError\<close> when it unpacks the
  empty candidate list. The same holds for the vector and hybrid MMR searches on a
  backend without rows.
\<close>

theorem empty_fetch_sync_async:
  "reorder_results_with_maximal_marginal_relevance env [] query_embedding lambda_mult k = Inr []
   \<and> areorder_results_with_maximal_marginal_relevance env [] query_embedding lambda_mult k
     = Inl ValueError
   \<and> max_marginal_relevance_search_with_score (search_env_with_rows []) ''q'' None None None None
     = Inr []
   \<and> amax_marginal_relevance_search_with_score (search_env_with_rows []) ''q'' None None None None
     = Inl ValueError
   \<and> hybrid_max_marginal_relevance_search_with_score (search_env_with_rows []) ''q'' None None
        None None
     = Inr []
   \<and> ahybrid_max_marginal_relevance_search_with_score (search_env_with_rows []) ''q'' None None
        None None
     = Inl ValueError"
  by (simp add: reorder_results_with_maximal_marginal_relevance_def
      areorder_results_with_maximal_marginal_relevance_def reorder_candidates_def unzip3_def
      max_marginal_relevance_search_with_score_def amax_marginal_relevance_search_with_score_def
      hybrid_max_marginal_relevance_search_with_score_def
      ahybrid_max_marginal_relevance_search_with_score_def simple_search_def
      search_env_with_rows_def Let_def)

lemma plain_keeps_decoded_metadata:
  assumes "map_of result FIELDS_METADATA = Some (PDict m)"
    and "map_of result FIELDS_CONTENT = Some (PStr content)"
  shows "result_to_document env result
     = Inr (\<lparr>page_content = content, metadata = dict_update (fst (pop_id result)) m\<rparr>,
            snd (pop_id result))"
proof -
  have "map_of (snd (pop_id result)) FIELDS_CONTENT = Some (PStr content)"
    using assms(2)
    by (simp add: pop_id_def delete_conv' FIELDS_ID_def FIELDS_CONTENT_def split: option.splits)
  moreover obtain fields_id rest where p: "pop_id result = (fields_id, rest)"
    by (cases "pop_id result")
  ultimately show ?thesis
    using assms(1)
    by (simp add: result_to_document_def dict_item_def as_mapping_def new_Document_def)
qed

lemma semantic_rejects_decoded_metadata:
  assumes "map_of result FIELDS_METADATA = Some (PDict m)"
    and "map_of result FIELDS_CONTENT = Some content"
  shows "semantic_row_to_doc env answers_dict result = Inl TypeError"
proof -
  have "map_of (snd (pop_id (AList.delete FIELDS_CONTENT result))) FIELDS_METADATA
      = Some (PDict m)"
    using assms(1)
    by (simp add: pop_id_def delete_conv' FIELDS_ID_def FIELDS_CONTENT_def FIELDS_METADATA_def
        split: option.splits)
  moreover obtain fields_id rest where
    p: "pop_id (AList.delete FIELDS_CONTENT result) = (fields_id, rest)"
    by (cases "pop_id (AList.delete FIELDS_CONTENT result)")
  ultimately show ?thesis
    using assms(2)
    by (simp add: semantic_row_to_doc_def dict_pop_def decode_with_def)
qed

text \<open>
  Claim C5 at the failing input: a row whose metadata field holds the dictionary
  \<open>{source: a}\<close>. \<open>_result_to_document\<close>, the normalizer of the plain and hybrid
  searches, takes the dictionary as the metadata base. The semantic-hybrid searches
  pass the field to \<open>json.loads\<close> without looking at its type and raise
  \<open>TypeError\<close>.
\<close>

theorem decoded_metadata_plain_and_semantic:
  "result_to_document env decoded_row
     = Inr (\<lparr>page_content = ''hello'',
             metadata = [(''id'', PStr ''1''), (''source'', PStr ''a'')]\<rparr>,
            AList.delete ''id'' decoded_row)
   \<and> semantic_row_to_doc env answers_dict decoded_row = Inl TypeError
   \<and> semantic_hybrid_search_with_score_and_rerank (search_env_with_rows [decoded_row]) ''q''
        None None
     = Inl TypeError
   \<and> asemantic_hybrid_search_with_score_and_rerank (search_env_with_rows [decoded_row]) ''q''
        None None
     = Inl TypeError"
  by (simp add: result_to_document_def semantic_row_to_doc_def decoded_row_def FIELDS_ID_def
      FIELDS_CONTENT_def FIELDS_METADATA_def FIELDS_CONTENT_VECTOR_def pop_id_def dict_item_def
      dict_pop_def as_mapping_def new_Document_def dict_update_def decode_with_def
      semantic_hybrid_search_with_score_and_rerank_def
      asemantic_hybrid_search_with_score_and_rerank_def search_env_with_rows_def Let_def)


end
